theory Spec2Isabelle
  imports Complex_Main "HOL-Library.Multiset"
begin

section \<open>Marvin IA: knowledge extraction, fact store and message orchestration\<close>

text \<open>
  A shallow embedding of the JavaScript sources
  \<^verbatim>\<open>src/services/keywordExtractor.js\<close>, \<^verbatim>\<open>src/services/messageProcessor.js\<close>,
  \<^verbatim>\<open>src/config/openai.js\<close> and \<^verbatim>\<open>src/models/Response.js\<close>.

  Conventions of the embedding.
  \<^item> A JavaScript string is a \<^typ>\<open>string\<close>: one \<^typ>\<open>char\<close> per UTF-16 code unit, read as
    its Latin-1 code point. Every character of the sources' literals (the Portuguese
    accented letters included) lies in that range; texts with code units above 255 are
    outside the model.
  \<^item> An object field that may be absent (\<^verbatim>\<open>undefined\<close> or \<^verbatim>\<open>null\<close>) is an
    \<^typ>\<open>'a option\<close>; fields hold values of the type the prompt of the classifier
    prescribes (strings, arrays of objects), not arbitrary JSON.
  \<^item> The clock (\<^verbatim>\<open>new Date()\<close>) is a parameter \<open>agora\<close>.
  \<^item> A collection of the document store is the list of its documents in insertion
    order. No document is ever deleted, so the position of a document identifies it as
    its \<^verbatim>\<open>_id\<close> does.
  \<^item> An exception is a value: a function that can throw returns a sum or an option, and
    every \<^verbatim>\<open>try/catch\<close> of the source is a case distinction on it.
  \<^item> Logging, the presence updates of the transport and the creation of indexes in the
    constructor of \<^verbatim>\<open>ResponseModel\<close> change no document and are left out.
\<close>

subsection \<open>Strings\<close>

abbreviation a_agudo :: char where "a_agudo \<equiv> CHR 0xE1"
abbreviation a_til :: char where "a_til \<equiv> CHR 0xE3"
abbreviation c_cedilha :: char where "c_cedilha \<equiv> CHR 0xE7"
abbreviation e_agudo :: char where "e_agudo \<equiv> CHR 0xE9"
abbreviation e_circ :: char where "e_circ \<equiv> CHR 0xEA"
abbreviation i_agudo :: char where "i_agudo \<equiv> CHR 0xED"
abbreviation o_agudo :: char where "o_agudo \<equiv> CHR 0xF3"
abbreviation o_til :: char where "o_til \<equiv> CHR 0xF5"
abbreviation A_agudo :: char where "A_agudo \<equiv> CHR 0xC1"
abbreviation A_til :: char where "A_til \<equiv> CHR 0xC3"
abbreviation C_cedilha :: char where "C_cedilha \<equiv> CHR 0xC7"
abbreviation E_agudo :: char where "E_agudo \<equiv> CHR 0xC9"

text \<open>\<^verbatim>\<open>\s\<close> and the characters \<^verbatim>\<open>trim()\<close> removes: tab, line feed, vertical tab, form
  feed, carriage return, space and no-break space.\<close>

definition js_space :: "char \<Rightarrow> bool" where
  "js_space c = (of_char c \<in> {9, 10, 11, 12, 13, 32, 160 :: nat})"

text \<open>\<^verbatim>\<open>\w\<close>: the ASCII letters, the digits and the underscore.\<close>

definition letras_minusculas :: string where
  "letras_minusculas = ''abcdefghijklmnopqrstuvwxyz''"

definition letras_maiusculas :: string where
  "letras_maiusculas = ''ABCDEFGHIJKLMNOPQRSTUVWXYZ''"

definition digitos :: string where
  "digitos = ''0123456789''"

definition word_char :: "char \<Rightarrow> bool" where
  "word_char c = (c \<in> set (letras_minusculas @ letras_maiusculas @ digitos @ ''_''))"

text \<open>\<^verbatim>\<open>toLowerCase()\<close> on Latin-1: A-Z and the accented capitals U+00C0..U+00DE
  (but the multiplication sign U+00D7) move up by 32.\<close>

definition lower_char :: "char \<Rightarrow> char" where
  "lower_char c =
     (let n = (of_char c :: nat)
      in if (65 \<le> n \<and> n \<le> 90) \<or> (192 \<le> n \<and> n \<le> 222 \<and> n \<noteq> 215)
         then char_of (n + 32) else c)"

definition toLowerCase :: "string \<Rightarrow> string" where
  "toLowerCase s = map lower_char s"

text \<open>The case folding of one character under the flag \<^verbatim>\<open>i\<close> of a regular expression
  (\<^verbatim>\<open>Canonicalize\<close>): the upper case of the character when that is one character, the
  character itself otherwise. In Latin-1, a-z and the accented letters U+00E0..U+00FE
  (but the division sign U+00F7) move down by 32; the sharp s (U+00DF), whose upper case
  is two letters, stays as it is. The upper cases of U+00B5 and U+00FF lie outside
  Latin-1; no pattern of the sources holds one of these two letters.\<close>

definition canonicalize :: "char \<Rightarrow> char" where
  "canonicalize c =
     (let n = (of_char c :: nat)
      in if (97 \<le> n \<and> n \<le> 122) \<or> (224 \<le> n \<and> n \<le> 254 \<and> n \<noteq> 247)
         then char_of (n - 32) else c)"

text \<open>\<^verbatim>\<open>toUpperCase()\<close> on Latin-1: the sharp s becomes the two letters \<^verbatim>\<open>SS\<close>, every
  other character the one that the case folding gives. Texts that are upper-cased and
  hold U+00B5 or U+00FF are outside the model.\<close>

definition upper_string :: "char \<Rightarrow> string" where
  "upper_string c = (if c = CHR 0xDF then ''SS'' else [canonicalize c])"

definition toUpperCase :: "string \<Rightarrow> string" where
  "toUpperCase s = concat (map upper_string s)"

definition trim :: "string \<Rightarrow> string" where
  "trim s = rev (dropWhile js_space (rev (dropWhile js_space s)))"

definition startsWith :: "string \<Rightarrow> string \<Rightarrow> bool" where
  "startsWith s p = (take (length p) s = p)"

text \<open>\<^verbatim>\<open>s.includes(p)\<close>: \<open>p\<close> occurs in \<open>s\<close> as a substring.\<close>

fun js_includes :: "string \<Rightarrow> string \<Rightarrow> bool" where
  "js_includes [] p = (p = [])"
| "js_includes (c # cs) p = (startsWith (c # cs) p \<or> js_includes cs p)"

text \<open>\<^verbatim>\<open>s.split(sep)\<close> for a separator that is not empty.\<close>

function js_split :: "string \<Rightarrow> string \<Rightarrow> string list" where
  "js_split sep [] = [[]]"
| "js_split sep (c # cs) =
     (if sep \<noteq> [] \<and> startsWith (c # cs) sep
      then [] # js_split sep (drop (length sep) (c # cs))
      else (case js_split sep cs of
              [] \<Rightarrow> [[c]]
            | w # ws \<Rightarrow> (c # w) # ws))"
  by pat_completeness auto
termination
  by (relation "measure (\<lambda>(sep, s). length s)") auto

text \<open>\<^verbatim>\<open>xs.join(sep)\<close>.\<close>

fun js_join :: "string \<Rightarrow> string list \<Rightarrow> string" where
  "js_join sep [] = []"
| "js_join sep [x] = x"
| "js_join sep (x # y # ys) = x @ sep @ js_join sep (y # ys)"

text \<open>The decimal numeral of a natural number, as a template literal prints it.\<close>

fun decimal :: "nat \<Rightarrow> string" where
  "decimal n = (if n < 10 then [digitos ! n] else decimal (n div 10) @ [digitos ! (n mod 10)])"

declare decimal.simps [simp del]

subsection \<open>Keyword extractor (\<^verbatim>\<open>keywordExtractor.js\<close>)\<close>

definition STOP_WORDS :: "string list" where
  "STOP_WORDS =
    [''a'', ''ao'', ''aos'', ''aquela'', ''aquelas'', ''aquele'', ''aqueles'', ''aquilo'', ''as'',
     ''at'' @ [e_agudo],
     ''com'', ''como'', ''da'', ''das'', ''de'', ''dela'', ''delas'', ''dele'', ''deles'', ''depois'',
     ''do'', ''dos'', ''e'', ''ela'', ''elas'', ''ele'', ''eles'', ''em'', ''entre'', ''era'',
     ''eram'', e_agudo # ''ramos'', ''essa'', ''essas'', ''esse'', ''esses'', ''esta'', ''estas'',
     ''este'',
     ''estou'', ''eu'', ''foi'', ''fomos'', ''for'', ''foram'', ''fosse'', ''fossem'', ''fui'',
     ''h'' @ [a_agudo], ''isso'', ''isto'', ''j'' @ [a_agudo], ''lhe'', ''lhes'', ''me'', ''mesmo'',
     ''meu'', ''meus'',
     ''minha'', ''minhas'', ''muito'', ''muitos'', ''na'', ''n'' @ [a_til] @ ''o'', ''nas'', ''nem'',
     ''no'', ''nos'',
     ''n'' @ [o_agudo] @ ''s'', ''nossa'', ''nossas'', ''nosso'', ''nossos'', ''num'', ''numa'', ''o'',
     ''os'', ''ou'',
     ''para'', ''pela'', ''pelas'', ''pelo'', ''pelos'', ''por'', ''qual'', ''quando'', ''que'',
     ''quem'', ''se'', ''seja'', ''sejam'', ''sejamos'', ''sem'', ''ser'' @ [a_agudo],
     ''ser'' @ [a_til] @ ''o'', ''serei'',
     ''seremos'', ''seria'', ''seriam'', ''ser'' @ [i_agudo] @ ''amos'', ''seu'', ''seus'',
     ''s'' @ [o_agudo], ''somos'', ''sou'',
     ''sua'', ''suas'', ''tamb'' @ [e_agudo] @ ''m'', ''te'', ''tem'', ''t'' @ [e_agudo] @ ''m'',
     ''temos'', ''tenho'', ''teu'', ''teus'',
     ''tu'', ''tua'', ''tuas'', ''um'', ''uma'', ''umas'', ''uns'', ''voc'' @ [e_circ],
     ''voc'' @ [e_circ] @ ''s'', ''vos'']"

text \<open>The class of the first \<^verbatim>\<open>replace\<close>:
  \<^verbatim>\<open>/[.,\/#!$%\^&\*;:{}=\-_`~()]/g\<close>.\<close>

definition PONTUACAO :: string where
  "PONTUACAO = ''.,/#!$%^&*;:{}=-_`~()''"

text \<open>\<^verbatim>\<open>.replace(/\s{2,}/g, ' ')\<close>: a run of two or more white-space characters becomes
  one space; a single white-space character stays as it is.\<close>

function collapse_ws :: "string \<Rightarrow> string" where
  "collapse_ws [] = []"
| "collapse_ws (c # cs) =
     (if js_space c \<and> cs \<noteq> [] \<and> js_space (hd cs)
      then CHR '' '' # collapse_ws (dropWhile js_space cs)
      else c # collapse_ws cs)"
  by pat_completeness auto
termination
  by (relation "measure length") (auto simp: le_imp_less_Suc length_dropWhile_le)

text \<open>The object \<^verbatim>\<open>wordFrequency\<close>: its own properties with their values, in the order
  in which they were created. \<^verbatim>\<open>wordFrequency[word] = (wordFrequency[word] || 0) + 1\<close>
  creates the property with the number 1 at the first occurrence of a word and adds one
  afterwards. A token is in lower case and has no underscore, so \<^verbatim>\<open>constructor\<close> is the
  one token that names an inherited property of the object: there the first read yields
  the function \<^verbatim>\<open>Object\<close>, which is truthy, the sum is a string, and so is every later
  sum. \<open>NaoNumero\<close> is such a value.\<close>

datatype contagem = Numero nat | NaoNumero

fun mais_um :: "contagem \<Rightarrow> contagem" where
  "mais_um (Numero n) = Numero (n + 1)"
| "mais_um NaoNumero = NaoNumero"

fun contar :: "string \<Rightarrow> (string \<times> contagem) list \<Rightarrow> (string \<times> contagem) list" where
  "contar w [] = [(w, if w = ''constructor'' then NaoNumero else Numero 1)]"
| "contar w ((k, n) # r) = (if k = w then (k, mais_um n) # r else (k, n) # contar w r)"

text \<open>The comparator \<^verbatim>\<open>(a, b) => wordFrequency[b] - wordFrequency[a]\<close> as the sort reads
  it: a difference that is not a number (\<^verbatim>\<open>NaN\<close>) counts as 0.\<close>

definition comparar :: "(string \<times> contagem) list \<Rightarrow> string \<Rightarrow> string \<Rightarrow> int" where
  "comparar obj a b =
     (case (map_of obj b, map_of obj a) of
        (Some (Numero m), Some (Numero n)) \<Rightarrow> int m - int n
      | _ \<Rightarrow> 0)"

text \<open>\<^verbatim>\<open>Object.keys\<close> lists the keys that are array indices first, in ascending numeric
  order, and then the other keys in creation order. An array index is the canonical
  decimal numeral of an integer below \<open>2^32 - 1\<close>.\<close>

definition valor_numerico :: "string \<Rightarrow> int" where
  "valor_numerico s = foldl (\<lambda>a c. 10 * a + (of_char c - 48)) 0 s"

definition is_array_index :: "string \<Rightarrow> bool" where
  "is_array_index s =
     (s \<noteq> [] \<and> list_all (\<lambda>c. c \<in> set digitos) s \<and> (s = ''0'' \<or> hd s \<noteq> CHR ''0'')
      \<and> valor_numerico s < 4294967295)"

definition object_keys :: "(string \<times> 'v) list \<Rightarrow> string list" where
  "object_keys obj =
     sort_key valor_numerico (filter is_array_index (map fst obj))
     @ filter (\<lambda>k. \<not> is_array_index k) (map fst obj)"

datatype js_valor = JsString string | JsOutro

text \<open>\<^verbatim>\<open>filteredWords\<close> of the source.\<close>

definition filteredWords :: "string \<Rightarrow> string list" where
  "filteredWords t =
     (let normalizedText = collapse_ws (filter (\<lambda>c. c \<notin> set PONTUACAO) (toLowerCase t));
          palavras = js_split '' '' normalizedText
      in filter (\<lambda>w. length w > 2 \<and> w \<notin> set STOP_WORDS) palavras)"

text \<open>
  \<^verbatim>\<open>Array.prototype.sort\<close> with a comparator. With a consistent comparator the language
  fixes the result (the stable sort); with another one, such as a comparator that
  yields \<^verbatim>\<open>NaN\<close> for some pairs, the order is the one that the algorithm of the engine
  produces. The sources run on Node.js, whose engine sorts an array of fewer than 64
  elements in two steps: it takes the longest run at the start of the array that is
  ascending or strictly descending (and reverses a descending one), and then inserts
  each later element into the sorted part at the position that a binary search finds.
  \<open>cmp x y < 0\<close> says that \<open>x\<close> goes before \<open>y\<close>. Arrays of 64 or more elements are
  sorted by merging several such runs, which gives the same result when the comparator
  is consistent; of the texts with the token \<^verbatim>\<open>constructor\<close>, those with 64 or more
  distinct tokens are outside the model.
\<close>

text \<open>The number of elements after \<open>prev\<close> that continue the run.\<close>

fun corrida :: "('a \<Rightarrow> 'a \<Rightarrow> int) \<Rightarrow> bool \<Rightarrow> 'a \<Rightarrow> 'a list \<Rightarrow> nat" where
  "corrida cmp isDescending prev [] = 0"
| "corrida cmp isDescending prev (x # xs) =
     (let order = cmp x prev
      in if (if isDescending then order \<ge> 0 else order < 0) then 0
         else Suc (corrida cmp isDescending x xs))"

text \<open>The first run, in ascending order, and the elements after it.\<close>

definition countAndMakeRun :: "('a \<Rightarrow> 'a \<Rightarrow> int) \<Rightarrow> 'a list \<Rightarrow> 'a list \<times> 'a list" where
  "countAndMakeRun cmp xs =
     (case xs of
        x0 # x1 # rest \<Rightarrow>
          let isDescending = cmp x1 x0 < 0;
              runLength = 2 + corrida cmp isDescending x1 rest
          in (if isDescending then rev (take runLength xs) else take runLength xs,
              drop runLength xs)
      | _ \<Rightarrow> (xs, []))"

text \<open>The binary search for the position of \<open>pivot\<close> among the positions \<open>left\<close> to
  \<open>right\<close> of the sorted part.\<close>

function busca_binaria :: "('a \<Rightarrow> 'a \<Rightarrow> int) \<Rightarrow> 'a \<Rightarrow> 'a list \<Rightarrow> nat \<Rightarrow> nat \<Rightarrow> nat" where
  "busca_binaria cmp pivot arr left right =
     (if left < right
      then let mid = left + (right - left) div 2
           in if cmp pivot (arr ! mid) < 0 then busca_binaria cmp pivot arr left mid
              else busca_binaria cmp pivot arr (mid + 1) right
      else left)"
  by pat_completeness auto
termination
  by (relation "measure (\<lambda>(cmp, pivot, arr, left, right). right - left)") auto

declare busca_binaria.simps [simp del]

fun binaryInsertionSort :: "('a \<Rightarrow> 'a \<Rightarrow> int) \<Rightarrow> 'a list \<Rightarrow> 'a list \<Rightarrow> 'a list" where
  "binaryInsertionSort cmp arr [] = arr"
| "binaryInsertionSort cmp arr (pivot # ps) =
     (let left = busca_binaria cmp pivot arr 0 (length arr)
      in binaryInsertionSort cmp (take left arr @ pivot # drop left arr) ps)"

definition array_sort :: "('a \<Rightarrow> 'a \<Rightarrow> int) \<Rightarrow> 'a list \<Rightarrow> 'a list" where
  "array_sort cmp xs =
     (if length xs < 2 then xs
      else case countAndMakeRun cmp xs of (run, rest) \<Rightarrow> binaryInsertionSort cmp run rest)"

text \<open>\<^verbatim>\<open>extractKeywords\<close>.\<close>

definition extractKeywords :: "js_valor \<Rightarrow> nat \<Rightarrow> string list" where
  "extractKeywords text maxKeywords =
     (case text of
        JsOutro \<Rightarrow> []
      | JsString t \<Rightarrow>
          if t = [] then []
          else
            let wordFrequency = foldl (\<lambda>obj w. contar w obj) [] (filteredWords t);
                sortedWords = array_sort (comparar wordFrequency) (object_keys wordFrequency)
            in take maxKeywords sortedWords)"

subsection \<open>Regular expressions\<close>

text \<open>
  The regular expressions of the sources, with the backtracking semantics of
  ECMAScript: alternatives are tried from left to right, \<^verbatim>\<open>*\<close>, \<^verbatim>\<open>+\<close> and \<^verbatim>\<open>?\<close> are
  greedy, and the match that is reported is the first one in that order at the leftmost
  position that has one. \<open>rx_m r (caps, s)\<close> lists, in that order, every way in which
  \<open>r\<close> matches a prefix of \<open>s\<close>: the captures so far and the rest of the input. An
  iteration of \<open>Star\<close> that consumes nothing is not repeated.
\<close>

datatype rx =
    Um string
  | Fora string
  | Vazio
  | Fim
  | Seq rx rx
  | Alt rx rx
  | Star rx
  | Grupo nat rx

type_synonym rx_estado = "(nat \<times> string) list \<times> string"

fun rx_m :: "rx \<Rightarrow> rx_estado \<Rightarrow> rx_estado list" where
  "rx_m (Um cs) (c, s) =
     (case s of [] \<Rightarrow> [] | x # xs \<Rightarrow> if x \<in> set cs then [(c, xs)] else [])"
| "rx_m (Fora cs) (c, s) =
     (case s of [] \<Rightarrow> [] | x # xs \<Rightarrow> if x \<in> set cs then [] else [(c, xs)])"
| "rx_m Vazio st = [st]"
| "rx_m Fim (c, s) = (if s = [] then [(c, s)] else [])"
| "rx_m (Seq a b) st = concat (map (rx_m b) (rx_m a st))"
| "rx_m (Alt a b) st = rx_m a st @ rx_m b st"
| "rx_m (Grupo i a) (c, s) =
     map (\<lambda>(c', s'). ((i, take (length s - length s') s) # c', s')) (rx_m a (c, s))"
| "rx_m (Star a) (c, s) =
     concat (map (rx_m (Star a))
               (filter (\<lambda>(c', s'). length s' < length s) (rx_m a (c, s))))
     @ [(c, s)]"

text \<open>\<^verbatim>\<open>s.match(r)\<close> without the flag \<^verbatim>\<open>g\<close>: the captures of the first match, searched
  from the leftmost position on; \<open>None\<close> is \<^verbatim>\<open>null\<close>.\<close>

fun rx_match :: "rx \<Rightarrow> string \<Rightarrow> (nat \<times> string) list option" where
  "rx_match r [] = (case rx_m r ([], []) of [] \<Rightarrow> None | (c, _) # _ \<Rightarrow> Some c)"
| "rx_match r (x # xs) =
     (case rx_m r ([], x # xs) of [] \<Rightarrow> rx_match r xs | (c, _) # _ \<Rightarrow> Some c)"

text \<open>A pattern that starts with \<^verbatim>\<open>^\<close> is tried at the first position only.\<close>

definition rx_match_inicio :: "rx \<Rightarrow> string \<Rightarrow> (nat \<times> string) list option" where
  "rx_match_inicio r s = (case rx_m r ([], s) of [] \<Rightarrow> None | (c, _) # _ \<Rightarrow> Some c)"

definition grupo :: "(nat \<times> string) list \<Rightarrow> nat \<Rightarrow> string" where
  "grupo caps i = (case map_of caps i of None \<Rightarrow> [] | Some g \<Rightarrow> g)"

definition Mais :: "rx \<Rightarrow> rx" where
  "Mais r = Seq r (Star r)"

definition Opc :: "rx \<Rightarrow> rx" where
  "Opc r = Alt r Vazio"

text \<open>A literal under the flag \<^verbatim>\<open>i\<close>: each character matches itself in either case.\<close>

definition lit_i :: "string \<Rightarrow> rx" where
  "lit_i s = foldr (\<lambda>c r. Seq (Um [lower_char c, canonicalize c]) r) s Vazio"

definition brancos :: string where
  "brancos = [CHR 9, CHR 10, CHR 11, CHR 12, CHR 13, CHR 32, CHR 160]"

definition letras :: string where
  "letras = letras_minusculas @ letras_maiusculas"

subsection \<open>Data model\<close>

text \<open>A value is falsy when it is absent or the empty string.\<close>

definition truthy :: "string option \<Rightarrow> bool" where
  "truthy v = (case v of None \<Rightarrow> False | Some s \<Rightarrow> s \<noteq> [])"

text \<open>\<^verbatim>\<open>v || d\<close> for a string field \<open>v\<close>.\<close>

definition ou :: "string option \<Rightarrow> string \<Rightarrow> string" where
  "ou v d = (case v of None \<Rightarrow> d | Some s \<Rightarrow> if s = [] then d else s)"

text \<open>The subject of a knowledge entry; the object of an entry has the same shape.\<close>

record sujeito =
  sujeito_tipo :: "string option"
  sujeito_valor :: "string option"
  sujeito_id :: "string option"
  sujeito_categoria :: "string option"

record predicado =
  predicado_tipo :: "string option"
  predicado_valor :: "string option"

record contexto =
  certeza :: "string option"
  fonte :: "string option"
  temporalidade :: "string option"

record entrada =
  entrada_id :: "string option"
  entrada_tipo :: "string option"
  entrada_sujeito :: "sujeito option"
  entrada_predicado :: "predicado option"
  entrada_objeto :: "sujeito option"
  entrada_contexto :: "contexto option"

record conhecimento =
  armazenar :: bool
  entradas :: "entrada list option"

record relacionamento =
  rel_tipo :: string
  rel_entidade :: string
  rel_descricao :: string

record contexto_fato =
  ctx_certeza :: string
  ctx_fonte :: string
  ctx_timestamp :: "nat option"

record fato =
  fato_tipo :: string
  chave :: string
  entidade :: string
  valor :: string
  relacionamentos :: "relacionamento list"
  fato_contexto :: "contexto_fato option"
  conceito :: "string option"
  categoria :: "string option"

definition USUARIO :: string where
  "USUARIO = ''USU'' @ [A_agudo] @ ''RIO''"

definition TERCEIRO :: string where
  "TERCEIRO = ''TERCEIRO''"

definition CONCEITO :: string where
  "CONCEITO = ''CONCEITO''"

subsection \<open>Fact translator (\<^verbatim>\<open>traduzirParaModeloDados\<close>)\<close>

definition tiposPermitidos :: "string list" where
  "tiposPermitidos =
     [''fato_identidade'', ''fato_relacao'', ''fato_definicao'', ''fato_propriedade'',
      ''fato_entidade'']"

definition sujeitosPermitidos :: "string list" where
  "sujeitosPermitidos = [USUARIO, TERCEIRO, CONCEITO]"

text \<open>\<^verbatim>\<open>entrada.contexto?.certeza\<close>\<close>

definition certeza_de :: "entrada \<Rightarrow> string option" where
  "certeza_de e = (case entrada_contexto e of None \<Rightarrow> None | Some c \<Rightarrow> certeza c)"

text \<open>\<^verbatim>\<open>/[^\w\s]/i.test(v)\<close>.\<close>

definition tem_simbolo :: "string \<Rightarrow> bool" where
  "tem_simbolo v = list_ex (\<lambda>c. \<not> word_char c \<and> \<not> js_space c) v"

text \<open>The first \<^verbatim>\<open>switch\<close> of the loop body: the checks of each kind of entry. The
  result is \<open>True\<close> when no \<^verbatim>\<open>continue\<close> is taken.\<close>

definition campos_validos ::
  "string \<Rightarrow> sujeito \<Rightarrow> predicado \<Rightarrow> sujeito option \<Rightarrow> bool" where
  "campos_validos tipo suj pred obj =
     (if tipo = ''fato_identidade'' then
        truthy (sujeito_valor suj) \<and> truthy (predicado_valor pred)
        \<and> \<not> tem_simbolo (ou (predicado_valor pred) [])
      else if tipo = ''fato_relacao'' then
        truthy (sujeito_valor suj) \<and> truthy (predicado_valor pred)
        \<and> (case obj of
              None \<Rightarrow> False
            | Some ob \<Rightarrow>
                truthy (sujeito_valor ob)
                \<and> \<not> (sujeito_tipo suj = sujeito_tipo ob \<and> sujeito_valor suj = sujeito_valor ob))
      else if tipo = ''fato_definicao'' then
        truthy (sujeito_valor suj) \<and> truthy (predicado_valor pred)
        \<and> \<not> length (ou (predicado_valor pred) []) < 5
      else if tipo = ''fato_propriedade'' then
        truthy (sujeito_valor suj) \<and> truthy (predicado_valor pred)
        \<and> truthy (predicado_tipo pred) \<and> \<not> length (ou (predicado_tipo pred) []) < 2
      else if tipo = ''fato_entidade'' then
        truthy (sujeito_valor suj) \<and> truthy (predicado_valor pred)
      else True)"

text \<open>\<^verbatim>\<open>valor.trim().replace(/^[^\w]+|[^\w]+$/g, '')\<close>: the leading run and the trailing
  run of characters outside \<^verbatim>\<open>\w\<close> are removed.\<close>

definition normalizarValor :: "string \<Rightarrow> string" where
  "normalizarValor v =
     rev (dropWhile (\<lambda>c. \<not> word_char c) (rev (dropWhile (\<lambda>c. \<not> word_char c) (trim v))))"

text \<open>\<^verbatim>\<open>if (x.valor) x.valor = normalizarValor(x.valor)\<close>.\<close>

definition normalizarCampo :: "string option \<Rightarrow> string option" where
  "normalizarCampo v = (if truthy v then map_option normalizarValor v else v)"

definition normalizarSujeito :: "sujeito \<Rightarrow> sujeito" where
  "normalizarSujeito s = s\<lparr>sujeito_valor := normalizarCampo (sujeito_valor s)\<rparr>"

definition normalizarPredicado :: "predicado \<Rightarrow> predicado" where
  "normalizarPredicado p = p\<lparr>predicado_valor := normalizarCampo (predicado_valor p)\<rparr>"

text \<open>The fact with the common fields, before the second \<^verbatim>\<open>switch\<close> fills it.\<close>

definition fato_base :: "nat \<Rightarrow> entrada \<Rightarrow> fato" where
  "fato_base agora e =
     \<lparr>fato_tipo = [], chave = [], entidade = [], valor = [], relacionamentos = [],
      fato_contexto =
        Some \<lparr>ctx_certeza = ''ALTA'',
              ctx_fonte = ou (case entrada_contexto e of None \<Rightarrow> None | Some c \<Rightarrow> fonte c) ''api'',
              ctx_timestamp = Some agora\<rparr>,
      conceito = None, categoria = None\<rparr>"

text \<open>The second \<^verbatim>\<open>switch\<close>: the fact of an entry whose values are normalised. \<open>None\<close>
  is the \<^verbatim>\<open>default\<close> branch (\<^verbatim>\<open>continue\<close>).\<close>

definition mapear ::
  "nat \<Rightarrow> string \<Rightarrow> entrada \<Rightarrow> string \<Rightarrow> sujeito \<Rightarrow> predicado \<Rightarrow> sujeito option \<Rightarrow> fato option"
  where
  "mapear agora idUsuario e tipo suj pred obj =
     (let sv = ou (sujeito_valor suj) [];
          pv = ou (predicado_valor pred) [];
          base = fato_base agora e
      in
      if tipo = ''fato_identidade'' then
        Some (base\<lparr>fato_tipo := ''nome'', chave := ''nome'',
                   entidade := (if sujeito_tipo suj = Some USUARIO then idUsuario
                                else toLowerCase sv),
                   valor := pv\<rparr>)
      else if tipo = ''fato_relacao'' then
        (let k = ou (predicado_tipo pred) ''relacao_generica'';
             ov = ou (case obj of None \<Rightarrow> None | Some ob \<Rightarrow> sujeito_valor ob) []
         in Some (base\<lparr>fato_tipo := ''relacao'', chave := k,
                        entidade := (if sujeito_tipo suj = Some USUARIO then idUsuario
                                     else toLowerCase sv),
                        valor := ov,
                        relacionamentos :=
                          (if obj = None then []
                           else [\<lparr>rel_tipo = k, rel_entidade = toLowerCase ov,
                                  rel_descricao = k @ '' de '' @ sv\<rparr>])\<rparr>))
      else if tipo = ''fato_definicao'' then
        Some (base\<lparr>fato_tipo := ''definicao'', chave := trim (toLowerCase sv),
                   entidade := ''geral'', valor := pv\<rparr>)
      else if tipo = ''fato_propriedade'' then
        (let k = ou (predicado_tipo pred) ''caracteristica''
         in Some (base\<lparr>fato_tipo := ''propriedade'', chave := k,
                        entidade := (if sujeito_tipo suj = Some USUARIO then idUsuario
                                     else if sujeito_tipo suj = Some CONCEITO then ''geral''
                                     else trim (toLowerCase sv)),
                        valor := pv,
                        relacionamentos :=
                          (if sujeito_tipo suj = Some CONCEITO
                           then [\<lparr>rel_tipo = ''propriedade_de'',
                                  rel_entidade = trim (toLowerCase sv),
                                  rel_descricao = k @ '' de '' @ sv\<rparr>]
                           else []),
                        conceito := (if sujeito_tipo suj = Some CONCEITO
                                     then Some (trim (toLowerCase sv)) else None)\<rparr>))
      else if tipo = ''fato_entidade'' then
        Some (base\<lparr>fato_tipo := ''entidade'',
                   chave := ou (predicado_tipo pred) ''caracteristica'',
                   entidade := trim (toLowerCase sv), valor := pv,
                   categoria := Some (ou (sujeito_categoria suj) ''organizacao'')\<rparr>)
      else None)"

text \<open>The end of the loop body: the check of the essential fields, the normalisation
  of key and value, and the cap of the value at 500 characters.\<close>

definition finalizar :: "fato \<Rightarrow> fato option" where
  "finalizar f =
     (if fato_tipo f = [] \<or> chave f = [] \<or> entidade f = [] \<or> valor f = [] then None
      else
        let k = trim (toLowerCase (chave f));
            v = trim (valor f)
        in if length v = 0 then None
           else Some (f\<lparr>chave := k,
                        valor := (if length v > 500 then take 500 v @ ''...'' else v)\<rparr>))"

text \<open>The first part of an iteration of the loop over \<^verbatim>\<open>conhecimento.entradas\<close>: the
  checks, the normalisation of the values and the second \<^verbatim>\<open>switch\<close>. \<open>None\<close> when the
  entry is skipped (\<^verbatim>\<open>continue\<close>). The source normalises the values in the entry object
  itself; the entry is not used again after the call.\<close>

definition mapearEntrada :: "nat \<Rightarrow> string \<Rightarrow> entrada \<Rightarrow> fato option" where
  "mapearEntrada agora idUsuario e =
     (case (entrada_sujeito e, entrada_predicado e) of
        (Some suj, Some pred) \<Rightarrow>
          if \<not> truthy (entrada_tipo e) then None
          else if certeza_de e \<noteq> Some ''ALTA'' then None
          else
            let tipo = ou (entrada_tipo e) []
            in if tipo \<notin> set tiposPermitidos then None
               else if sujeito_tipo suj \<notin> Some ` set sujeitosPermitidos then None
               else if \<not> campos_validos tipo suj pred (entrada_objeto e) then None
               else mapear agora idUsuario e tipo (normalizarSujeito suj)
                      (normalizarPredicado pred)
                      (map_option normalizarSujeito (entrada_objeto e))
      | _ \<Rightarrow> None)"

text \<open>One iteration of the loop: the fact that is pushed, if any.\<close>

definition traduzirEntrada :: "nat \<Rightarrow> string \<Rightarrow> entrada \<Rightarrow> fato option" where
  "traduzirEntrada agora idUsuario e =
     (case mapearEntrada agora idUsuario e of None \<Rightarrow> None | Some f \<Rightarrow> finalizar f)"

text \<open>The key of the final pass, \<^verbatim>\<open>`${fato.tipo}|${fato.chave}|${fato.entidade}`\<close>.\<close>

definition chaveUnica :: "fato \<Rightarrow> string" where
  "chaveUnica f = fato_tipo f @ ''|'' @ chave f @ ''|'' @ entidade f"

text \<open>The final pass; \<open>vistas\<close> is the set \<^verbatim>\<open>chavesProcessadas\<close>.\<close>

fun fatosUnicos :: "string list \<Rightarrow> fato list \<Rightarrow> fato list" where
  "fatosUnicos vistas [] = []"
| "fatosUnicos vistas (f # fs) =
     (if chaveUnica f \<in> set vistas then fatosUnicos vistas fs
      else f # fatosUnicos (chaveUnica f # vistas) fs)"

definition traduzirParaModeloDados :: "nat \<Rightarrow> conhecimento \<Rightarrow> string \<Rightarrow> fato list" where
  "traduzirParaModeloDados agora conhec idUsuario =
     (case entradas conhec of
        None \<Rightarrow> []
      | Some es \<Rightarrow>
          if \<not> armazenar conhec \<or> length es = 0 then []
          else fatosUnicos [] (List.map_filter (traduzirEntrada agora idUsuario) es))"

subsection \<open>The document store and \<^verbatim>\<open>ResponseModel\<close>\<close>

text \<open>
  The store is an external collaborator. A call of a \<^verbatim>\<open>ResponseModel\<close> method takes
  a flag \<open>falha\<close>: whether the store raises during that call. Every method catches the
  exception and returns \<^verbatim>\<open>{ success: false }\<close>; a call that raises leaves the collection
  as it was.
\<close>

record fato_doc = fato +
  created_at :: nat
  last_updated :: nat

record resposta_doc =
  doc_palavras_chave :: "string list"
  doc_resposta :: string
  doc_classificacao :: string
  doc_created_at :: nat
  doc_last_updated :: nat

record entidade_doc =
  nome :: string
  nome_normalizado :: string
  apelidos :: "string list"

record db =
  responses :: "resposta_doc list"
  facts :: "fato_doc list"
  entities :: "entidade_doc list"

text \<open>\<^verbatim>\<open>findOne\<close>: the position of the first document that satisfies the query.\<close>

fun findOne :: "('a \<Rightarrow> bool) \<Rightarrow> 'a list \<Rightarrow> nat option" where
  "findOne q [] = None"
| "findOne q (d # ds) = (if q d then Some 0 else map_option Suc (findOne q ds))"

text \<open>\<^verbatim>\<open>findResponseByKeywords\<close>. \<^verbatim>\<open>Math.ceil(n * 0.6)\<close> is evaluated in double
  precision for \<open>n \<le> 10\<close>, where it is the ceiling of \<open>3n/5\<close>. The query
  \<^verbatim>\<open>{ palavras_chave: { $in: searchKeywords } }\<close> selects the documents that hold at least
  one of the keywords. The result is the position and the document, or \<open>None\<close> for
  \<^verbatim>\<open>{ success: false }\<close>.\<close>

definition findResponseByKeywords ::
  "bool \<Rightarrow> resposta_doc list \<Rightarrow> string list \<Rightarrow> (nat \<times> resposta_doc) option" where
  "findResponseByKeywords falha col keywords =
     (if falha then None
      else
        let searchKeywords = take (min (length keywords) 10) keywords;
            minKeywordsMatch = (3 * length searchKeywords + 4) div 5;
            respostas =
              filter (\<lambda>(i, r). list_ex (\<lambda>kw. kw \<in> set searchKeywords) (doc_palavras_chave r))
                (enumerate 0 col);
            filteredResponses =
              filter (\<lambda>(i, r).
                  length (filter (\<lambda>kw. kw \<in> set searchKeywords) (doc_palavras_chave r))
                    \<ge> minKeywordsMatch)
                respostas
        in case filteredResponses of [] \<Rightarrow> None | x # _ \<Rightarrow> Some x)"

text \<open>The result of a save: \<^verbatim>\<open>{ success: false, error }\<close> or
  \<^verbatim>\<open>{ success: true, updated }\<close>.\<close>

datatype resultado_save = Falhou | Sucesso bool

text \<open>\<^verbatim>\<open>saveResponse\<close>. \<open>falha_busca\<close> is the flag of the inner call of
  \<^verbatim>\<open>findResponseByKeywords\<close>, \<open>falha_escrita\<close> that of the update or insert.\<close>

definition saveResponse ::
  "bool \<Rightarrow> bool \<Rightarrow> nat \<Rightarrow> resposta_doc list \<Rightarrow> string list \<Rightarrow> string \<Rightarrow> string
     \<Rightarrow> resposta_doc list \<times> resultado_save" where
  "saveResponse falha_busca falha_escrita agora col palavras resp classif =
     (case findResponseByKeywords falha_busca col palavras of
        Some (i, r) \<Rightarrow>
          if falha_escrita then (col, Falhou)
          else (col[i := r\<lparr>doc_resposta := resp, doc_classificacao := classif,
                            doc_last_updated := agora\<rparr>],
                Sucesso True)
      | None \<Rightarrow>
          if falha_escrita then (col, Falhou)
          else (col @ [\<lparr>doc_palavras_chave = palavras, doc_resposta = resp,
                         doc_classificacao = classif, doc_created_at = agora,
                         doc_last_updated = agora\<rparr>],
                Sucesso False))"

text \<open>The query of \<^verbatim>\<open>saveFact\<close> and \<^verbatim>\<open>findFact\<close>: equality on \<^verbatim>\<open>tipo\<close>, \<^verbatim>\<open>chave\<close> and
  \<^verbatim>\<open>entidade\<close>, and on \<^verbatim>\<open>conceito\<close> when the query has that field.\<close>

record consulta_fato =
  q_tipo :: string
  q_chave :: string
  q_entidade :: string
  q_conceito :: "string option"

definition satisfaz :: "consulta_fato \<Rightarrow> fato_doc \<Rightarrow> bool" where
  "satisfaz q d =
     (fato_tipo d = q_tipo q \<and> chave d = q_chave q \<and> entidade d = q_entidade q
      \<and> (case q_conceito q of None \<Rightarrow> True | Some c \<Rightarrow> conceito d = Some c))"

text \<open>\<^verbatim>\<open>normalizedFact\<close> and \<^verbatim>\<open>query\<close> of \<^verbatim>\<open>saveFact\<close>.\<close>

definition normalizedFact :: "fato \<Rightarrow> fato" where
  "normalizedFact factData =
     factData\<lparr>fato_tipo := trim (toLowerCase (fato_tipo factData)),
               chave := trim (toLowerCase (chave factData)),
               entidade := trim (toLowerCase (entidade factData))\<rparr>"

definition consulta_de :: "fato \<Rightarrow> consulta_fato" where
  "consulta_de nf =
     \<lparr>q_tipo = fato_tipo nf, q_chave = chave nf, q_entidade = entidade nf,
      q_conceito = (if fato_tipo nf = ''propriedade'' \<and> truthy (conceito nf)
                    then conceito nf else None)\<rparr>"

text \<open>The object \<^verbatim>\<open>updateData\<close>: the fields that \<^verbatim>\<open>$set\<close> assigns, each with its path.
  \<^verbatim>\<open>valor\<close> and \<^verbatim>\<open>last_updated\<close> are always there, \<^verbatim>\<open>relacionamentos\<close> and \<^verbatim>\<open>contexto\<close>
  when the fact has them.\<close>

type_synonym atribuicoes = "(string \<times> (fato_doc \<Rightarrow> fato_doc)) list"

definition updateData :: "nat \<Rightarrow> fato \<Rightarrow> atribuicoes" where
  "updateData agora nf =
     [(''valor'', \<lambda>d. d\<lparr>valor := valor nf\<rparr>),
      (''last_updated'', \<lambda>d. d\<lparr>last_updated := agora\<rparr>)]
     @ (if length (relacionamentos nf) > 0
        then [(''relacionamentos'',
               \<lambda>d. d\<lparr>relacionamentos :=
                        map (\<lambda>rel. rel\<lparr>rel_entidade := trim (toLowerCase (rel_entidade rel))\<rparr>)
                          (relacionamentos nf)\<rparr>)]
        else [])
     @ (case fato_contexto nf of
          None \<Rightarrow> []
        | Some c \<Rightarrow>
            [(''contexto'',
              \<lambda>d. d\<lparr>fato_contexto :=
                       Some (c\<lparr>ctx_certeza := ''ALTA'',
                               ctx_timestamp := (case ctx_timestamp c of
                                                   None \<Rightarrow> Some agora
                                                 | Some ts \<Rightarrow> Some ts)\<rparr>)\<rparr>)])"

text \<open>\<^verbatim>\<open>updateOne({ _id }, { $set, $currentDate })\<close> on the document at position \<open>i\<close>.
  The server refuses an update in which two operators name the same path (a conflict of
  update operators): the call raises and no document changes, which is the result
  \<open>None\<close>. Otherwise the assignments of \<^verbatim>\<open>$set\<close> are applied and the dates of
  \<^verbatim>\<open>$currentDate\<close> are set to the time of the server; \<^verbatim>\<open>last_updated\<close> is the one date
  field of a fact.\<close>

definition updateOne ::
  "nat \<Rightarrow> atribuicoes \<Rightarrow> string list \<Rightarrow> nat \<Rightarrow> fato_doc list \<Rightarrow> fato_doc list option" where
  "updateOne i op_set op_currentDate agora col =
     (if list_ex (\<lambda>p. p \<in> set op_currentDate) (map fst op_set) then None
      else
        let d = fold (\<lambda>(p, f) d. f d) op_set (col ! i);
            d' = (if ''last_updated'' \<in> set op_currentDate then d\<lparr>last_updated := agora\<rparr>
                  else d)
        in Some (col[i := d']))"

text \<open>\<^verbatim>\<open>saveFact\<close>. The update of a fact that exists passes \<^verbatim>\<open>last_updated\<close> both in
  \<^verbatim>\<open>$set: updateData\<close> and in \<^verbatim>\<open>$currentDate: { last_updated: true }\<close>; when
  \<^verbatim>\<open>updateOne\<close> raises, the \<^verbatim>\<open>catch\<close> of the method returns \<^verbatim>\<open>{ success: false }\<close>.\<close>

definition saveFact ::
  "bool \<Rightarrow> nat \<Rightarrow> fato_doc list \<Rightarrow> fato \<Rightarrow> fato_doc list \<times> resultado_save" where
  "saveFact falha agora col factData =
     (if fato_tipo factData = [] \<or> chave factData = [] \<or> entidade factData = []
         \<or> valor factData = []
      then (col, Falhou)
      else if falha then (col, Falhou)
      else
        let nf = normalizedFact factData
        in case findOne (satisfaz (consulta_de nf)) col of
             Some i \<Rightarrow>
               (case updateOne i (updateData agora nf) [''last_updated''] agora col of
                  None \<Rightarrow> (col, Falhou)
                | Some col' \<Rightarrow> (col', Sucesso True))
           | None \<Rightarrow>
               (col @ [fato.extend nf \<lparr>created_at = agora, last_updated = agora\<rparr>],
                Sucesso False))"

text \<open>The result of a lookup: \<^verbatim>\<open>{ success: false }\<close>, \<^verbatim>\<open>{ success: true, fact }\<close> or
  \<^verbatim>\<open>{ success: true, facts }\<close>.\<close>

datatype resultado_busca = Nada | UmFato fato_doc | Fatos "fato_doc list"

definition findFact ::
  "bool \<Rightarrow> fato_doc list \<Rightarrow> string \<Rightarrow> string \<Rightarrow> string \<Rightarrow> resultado_busca" where
  "findFact falha col tipo k ent =
     (if falha then Nada
      else case findOne (satisfaz \<lparr>q_tipo = tipo, q_chave = k, q_entidade = ent,
                                   q_conceito = None\<rparr>) col of
             None \<Rightarrow> Nada
           | Some i \<Rightarrow> UmFato (col ! i))"

text \<open>\<^verbatim>\<open>findRelationalFacts\<close>. The value that \<^verbatim>\<open>processMessage\<close> passes consists of
  letters, so the expression \<^verbatim>\<open>new RegExp(`^${valorLowerCase}$`, 'i')\<close> tests equality up
  to the case of the letters; values with other characters are outside the model.\<close>

definition findRelationalFacts ::
  "bool \<Rightarrow> fato_doc list \<Rightarrow> string \<Rightarrow> string \<Rightarrow> string option \<Rightarrow> resultado_busca" where
  "findRelationalFacts falha col tipo ent v =
     (if falha then Nada
      else
        let achados =
              filter (\<lambda>d. fato_tipo d = tipo \<and> entidade d = ent
                          \<and> (if truthy v
                              then toLowerCase (valor d) = toLowerCase (ou v [])
                                   \<or> list_ex (\<lambda>rel. rel_entidade rel = toLowerCase (ou v []))
                                        (relacionamentos d)
                              else True))
                col
        in if length achados > 0 then Fatos achados else Nada)"

definition findConceptProperties ::
  "bool \<Rightarrow> bool \<Rightarrow> fato_doc list \<Rightarrow> string \<Rightarrow> resultado_busca" where
  "findConceptProperties falha falha_definicao col conc =
     (if falha then Nada
      else
        let conceitoLowerCase = toLowerCase conc;
            achados =
              filter (\<lambda>d. (fato_tipo d = ''entidade'' \<and> entidade d = conceitoLowerCase)
                          \<or> (fato_tipo d = ''propriedade'' \<and> entidade d = ''geral''
                              \<and> conceito d = Some conceitoLowerCase)
                          \<or> (list_ex (\<lambda>rel. rel_tipo rel = ''propriedade_de'') (relacionamentos d)
                              \<and> list_ex (\<lambda>rel. rel_entidade rel = conceitoLowerCase)
                                   (relacionamentos d)))
                col
        in if length achados > 0 then Fatos achados
           else (case findFact falha_definicao col ''definicao'' conceitoLowerCase ''geral'' of
                   UmFato d \<Rightarrow> Fatos [d]
                 | _ \<Rightarrow> Nada))"

subsection \<open>Classifier adapter (\<^verbatim>\<open>getOpenAIResponse\<close>)\<close>

record taxonomia =
  tipo_interacao :: "string option"
  sujeito_principal :: "string option"
  categoria_conhecimento :: "string option"
  contexto_aplicacao :: "string option"
  nivel_certeza :: "string option"

record json_data =
  palavras_chave :: "string list option"
  resposta :: "string option"
  classificacao :: "string option"
  analise_taxonomica :: "taxonomia option"
  conhecimento :: "conhecimento option"

text \<open>What the external service answers: a transport or service error, a content that
  is not the JSON expected, or the parsed JSON object.\<close>

datatype resposta_api = ErroApi string | JsonInvalido | Json json_data

record sender_info =
  sender_id :: string
  sender_name :: "string option"
  isGroup :: bool

text \<open>The request: the user message and the parts of the system prompt that vary (the
  name and the id of the sender, and the directive for a learning command). The fixed
  text of the prompt is left out.\<close>

record pedido =
  pedido_mensagem :: string
  pedido_nome :: "string option"
  pedido_id :: "string option"
  pedido_aprendizado :: bool

datatype erro_openai = CamposAusentes | ErroProcessamento | ErroServico string

text \<open>\<^verbatim>\<open>/meu nome (?:\xE9|e|seria) ([^.,]+)/i\<close>; in the comments of this theory an
  accented letter of a source pattern is written as its escape (\<^verbatim>\<open>\xE9\<close> is e with acute
  accent, \<^verbatim>\<open>\xE3\<close> is a with tilde).\<close>

definition rx_nome :: rx where
  "rx_nome =
     Seq (lit_i ''meu nome '')
       (Seq (Alt (lit_i [e_agudo]) (Alt (lit_i ''e'') (lit_i ''seria'')))
          (Seq (lit_i '' '') (Grupo 1 (Mais (Fora ''.,'')))))"

text \<open>\<^verbatim>\<open>/([^ ]+) significa ([^.]+)/i\<close>\<close>

definition rx_significa :: rx where
  "rx_significa =
     Seq (Grupo 1 (Mais (Fora '' '')))
       (Seq (lit_i '' significa '') (Grupo 2 (Mais (Fora ''.''))))"

text \<open>\<^verbatim>\<open>/^[^:]+ \xE9 [^:]+$/i\<close>, to be matched at the first position.\<close>

definition rx_x_e_y :: rx where
  "rx_x_e_y =
     Seq (Mais (Fora '':''))
       (Seq (lit_i ('' '' @ [e_agudo] @ '' '')) (Seq (Mais (Fora '':'')) Fim))"

definition nth_opt :: "'a list \<Rightarrow> nat \<Rightarrow> 'a option" where
  "nth_opt xs i = (if i < length xs then Some (xs ! i) else None)"

definition sujeito_de :: "string \<Rightarrow> string \<Rightarrow> sujeito" where
  "sujeito_de t v =
     \<lparr>sujeito_tipo = Some t, sujeito_valor = Some v, sujeito_id = None,
      sujeito_categoria = None\<rparr>"

definition predicado_de :: "string \<Rightarrow> string \<Rightarrow> predicado" where
  "predicado_de t v = \<lparr>predicado_tipo = Some t, predicado_valor = Some v\<rparr>"

text \<open>The deterministic extraction from the text of a learning command: the kind, the
  subject and the predicate of the entry. \<open>None\<close> is a \<^verbatim>\<open>TypeError\<close>
  (\<^verbatim>\<open>senderInfo.id\<close> without sender, \<^verbatim>\<open>partes[1].trim()\<close> without a second part).\<close>

definition extrair_manual ::
  "string \<Rightarrow> sender_info option \<Rightarrow> (string \<times> sujeito \<times> predicado) option" where
  "extrair_manual conteudoAprendizado senderInfo =
     (if js_includes (toLowerCase conteudoAprendizado) ''meu nome'' then
        (case senderInfo of
           None \<Rightarrow> None
         | Some si \<Rightarrow>
             Some (''fato_identidade'', sujeito_de USUARIO (sender_id si),
                   predicado_de ''nome''
                     (case rx_match rx_nome conteudoAprendizado of
                        Some caps \<Rightarrow> trim (grupo caps 1)
                      | None \<Rightarrow> conteudoAprendizado)))
      else if js_includes (toLowerCase conteudoAprendizado) '' significa '' then
        (case rx_match rx_significa conteudoAprendizado of
           Some caps \<Rightarrow>
             Some (''fato_definicao'', sujeito_de CONCEITO (trim (grupo caps 1)),
                   predicado_de ''significado'' (trim (grupo caps 2)))
         | None \<Rightarrow>
             (let partes = js_split '' significa '' conteudoAprendizado
              in Some (''fato_definicao'', sujeito_de CONCEITO (trim (hd partes)),
                       predicado_de ''significado''
                         (if truthy (nth_opt partes 1) then trim (partes ! 1) else []))))
      else if rx_match_inicio rx_x_e_y conteudoAprendizado \<noteq> None then
        (let partes = js_split ('' '' @ [e_agudo] @ '' '') conteudoAprendizado
         in if startsWith (toLowerCase (hd partes)) ''meu '' then
              (case (senderInfo, nth_opt partes 1) of
                 (Some si, Some p1) \<Rightarrow>
                   Some (''fato_propriedade'', sujeito_de USUARIO (sender_id si),
                         predicado_de (toLowerCase (trim (drop 4 (hd partes)))) (trim p1))
               | _ \<Rightarrow> None)
            else
              (case nth_opt partes 1 of
                 Some p1 \<Rightarrow>
                   Some (''fato_definicao'', sujeito_de CONCEITO (trim (hd partes)),
                         predicado_de ''definicao'' (trim p1))
               | None \<Rightarrow> None))
      else
        Some (''fato_definicao'', sujeito_de CONCEITO ''termo'',
              predicado_de ''definicao'' conteudoAprendizado))"

definition entrada_manual :: "string \<times> sujeito \<times> predicado \<Rightarrow> entrada" where
  "entrada_manual x =
     (case x of (tipo, suj, pred) \<Rightarrow>
        \<lparr>entrada_id = Some ''entrada_manual'', entrada_tipo = Some tipo,
         entrada_sujeito = Some suj, entrada_predicado = Some pred, entrada_objeto = None,
         entrada_contexto =
           Some \<lparr>certeza = Some ''ALTA'',
                 fonte = Some (''declara'' @ [c_cedilha, a_til] @ ''o_direta''),
                 temporalidade = Some ''atual''\<rparr>\<rparr>)"

text \<open>\<^verbatim>\<open>!jsonData.conhecimento || !jsonData.conhecimento.entradas ||
  jsonData.conhecimento.entradas.length === 0\<close>\<close>

definition sem_entradas :: "conhecimento option \<Rightarrow> bool" where
  "sem_entradas k =
     (case k of
        None \<Rightarrow> True
      | Some c \<Rightarrow> (case entradas c of None \<Rightarrow> True | Some es \<Rightarrow> length es = 0))"

text \<open>The \<^verbatim>\<open>else\<close> branch: \<^verbatim>\<open>armazenar = true\<close> and \<^verbatim>\<open>certeza = 'ALTA'\<close> in every entry.\<close>

definition forcar_certeza :: "entrada \<Rightarrow> entrada" where
  "forcar_certeza e =
     e\<lparr>entrada_contexto :=
         Some ((case entrada_contexto e of
                  None \<Rightarrow> \<lparr>certeza = None, fonte = None, temporalidade = None\<rparr>
                | Some c \<Rightarrow> c)\<lparr>certeza := Some ''ALTA''\<rparr>)\<rparr>"

definition forcar_armazenamento :: "conhecimento \<Rightarrow> conhecimento" where
  "forcar_armazenamento c =
     c\<lparr>armazenar := True, entradas := map_option (map forcar_certeza) (entradas c)\<rparr>"

text \<open>The request that is sent for a message.\<close>

definition pedido_de :: "string \<Rightarrow> sender_info option \<Rightarrow> pedido" where
  "pedido_de userMessage senderInfo =
     \<lparr>pedido_mensagem = userMessage,
      pedido_nome = (case senderInfo of
                       None \<Rightarrow> None
                     | Some si \<Rightarrow> if truthy (sender_name si) then sender_name si else None),
      pedido_id = (case senderInfo of
                     None \<Rightarrow> None
                   | Some si \<Rightarrow> if sender_id si \<noteq> [] then Some (sender_id si) else None),
      pedido_aprendizado = startsWith userMessage ''/aprender ''\<rparr>"

definition getOpenAIResponse ::
  "(pedido \<Rightarrow> resposta_api) \<Rightarrow> string \<Rightarrow> sender_info option \<Rightarrow> erro_openai + json_data"
  where
  "getOpenAIResponse openai userMessage senderInfo =
     (let isLearningCommand = startsWith userMessage ''/aprender ''
      in case openai (pedido_de userMessage senderInfo) of
           ErroApi msg \<Rightarrow> Inl (ErroServico msg)
         | JsonInvalido \<Rightarrow> Inl ErroProcessamento
         | Json jsonData \<Rightarrow>
             if palavras_chave jsonData = None \<or> \<not> truthy (resposta jsonData)
                \<or> \<not> truthy (classificacao jsonData) \<or> analise_taxonomica jsonData = None
             then Inl CamposAusentes
             else if isLearningCommand then
               (if sem_entradas (conhecimento jsonData) then
                  (case extrair_manual (trim (drop 10 userMessage)) senderInfo of
                     None \<Rightarrow> Inl ErroProcessamento
                   | Some x \<Rightarrow>
                       Inr (jsonData\<lparr>conhecimento :=
                              Some \<lparr>armazenar = True, entradas = Some [entrada_manual x]\<rparr>\<rparr>))
                else
                  Inr (jsonData\<lparr>conhecimento :=
                         map_option forcar_armazenamento (conhecimento jsonData)\<rparr>))
             else Inr jsonData)"

subsection \<open>Query analyzer (\<^verbatim>\<open>analisarTaxonomia\<close>)\<close>

record consulta =
  consulta_tipo :: string
  alvo :: string
  param_entidade :: "string option"
  param_valor :: "string option"
  param_propriedade :: "string option"

text \<open>\<^verbatim>\<open>/(?:quem \xE9|sobre) ([a-zA-Z]+)/i\<close>\<close>

definition rx_terceiro :: rx where
  "rx_terceiro =
     Seq (Alt (lit_i (''quem '' @ [e_agudo])) (lit_i ''sobre''))
       (Seq (lit_i '' '') (Grupo 1 (Mais (Um letras))))"

text \<open>\<^verbatim>\<open>/(?:o que \xE9|significa|significado de) ([a-zA-Z0-9]+)/i\<close>\<close>

definition rx_definicao :: rx where
  "rx_definicao =
     Seq (Alt (lit_i (''o que '' @ [e_agudo]))
            (Alt (lit_i ''significa'') (lit_i ''significado de'')))
       (Seq (lit_i '' '') (Grupo 1 (Mais (Um (letras @ digitos)))))"

text \<open>\<^verbatim>\<open>/(?:quais|que|quem) (?:s[\xE3a]o )?(?:as? |os? )?([a-zA-Z]+)(?:s)? (?:da |do |de |)([a-zA-Z0-9 ]+)\??/i\<close>\<close>

definition rx_propriedade :: rx where
  "rx_propriedade =
     Seq (Alt (lit_i ''quais'') (Alt (lit_i ''que'') (lit_i ''quem'')))
    (Seq (lit_i '' '')
    (Seq (Opc (Seq (lit_i ''s'') (Seq (Um [a_til, A_til, CHR ''a'', CHR ''A'']) (lit_i ''o ''))))
    (Seq (Opc (Alt (Seq (lit_i ''a'') (Seq (Opc (lit_i ''s'')) (lit_i '' '')))
                   (Seq (lit_i ''o'') (Seq (Opc (lit_i ''s'')) (lit_i '' '')))))
    (Seq (Grupo 1 (Mais (Um letras)))
    (Seq (Opc (lit_i ''s''))
    (Seq (lit_i '' '')
    (Seq (Alt (lit_i ''da '') (Alt (lit_i ''do '') (Alt (lit_i ''de '') Vazio)))
    (Seq (Grupo 2 (Mais (Um (letras @ digitos @ '' ''))))
         (Opc (lit_i ''?''))))))))))"

text \<open>\<^verbatim>\<open>/([a-zA-Z0-9 ]+)(?:\s+tem\s+|\s+possui\s+)(?:quais|que)?\s+([a-zA-Z]+)/i\<close>\<close>

definition rx_conceito_simples :: rx where
  "rx_conceito_simples =
     Seq (Grupo 1 (Mais (Um (letras @ digitos @ '' ''))))
    (Seq (Alt (Seq (Mais (Um brancos)) (Seq (lit_i ''tem'') (Mais (Um brancos))))
              (Seq (Mais (Um brancos)) (Seq (lit_i ''possui'') (Mais (Um brancos)))))
    (Seq (Opc (Alt (lit_i ''quais'') (lit_i ''que'')))
    (Seq (Mais (Um brancos)) (Grupo 2 (Mais (Um letras))))))"

text \<open>The first \<^verbatim>\<open>switch\<close>: the kind of query of a knowledge category.\<close>

definition tipo_da_categoria :: "string option \<Rightarrow> string option" where
  "tipo_da_categoria cat =
     (if cat = Some ''IDENTIDADE'' then Some ''identidade''
      else if cat = Some (''RELA'' @ [C_cedilha, A_til] @ ''O'') then Some ''relacao''
      else if cat = Some (''DEFINI'' @ [C_cedilha, A_til] @ ''O'') then Some ''definicao''
      else if cat = Some ''PROPRIEDADE'' then Some ''propriedade''
      else None)"

definition analisarTaxonomia :: "taxonomia \<Rightarrow> string \<Rightarrow> consulta option" where
  "analisarTaxonomia tax mensagemOriginal =
     (if tipo_interacao tax \<noteq> Some ''pergunta'' then None
      else case tipo_da_categoria (categoria_conhecimento tax) of
        None \<Rightarrow> None
      | Some tipo \<Rightarrow>
          (let c0 = \<lparr>consulta_tipo = tipo, alvo = [], param_entidade = None,
                     param_valor = None, param_propriedade = None\<rparr>
           in
           if sujeito_principal tax = Some USUARIO then
             Some (c0\<lparr>alvo := ''usuario'', param_entidade := Some ''usuario''\<rparr>)
           else if sujeito_principal tax = Some TERCEIRO then
             (case rx_match rx_terceiro mensagemOriginal of
                Some caps \<Rightarrow>
                  if grupo caps 1 \<noteq> []
                  then Some (c0\<lparr>alvo := ''terceiro'',
                                 param_valor := Some (toLowerCase (grupo caps 1))\<rparr>)
                  else None
              | None \<Rightarrow> None)
           else if sujeito_principal tax = Some CONCEITO then
             (let c1 =
                (if tipo = ''definicao'' then
                   (case rx_match rx_definicao mensagemOriginal of
                      Some caps \<Rightarrow>
                        if grupo caps 1 \<noteq> []
                        then c0\<lparr>param_valor := Some (toLowerCase (grupo caps 1))\<rparr>
                        else c0
                    | None \<Rightarrow> c0)
                 else if tipo = ''propriedade'' then
                   (case rx_match rx_propriedade mensagemOriginal of
                      Some caps \<Rightarrow>
                        c0\<lparr>param_propriedade := Some (toLowerCase (grupo caps 1)),
                           param_valor := Some (toLowerCase (trim (grupo caps 2)))\<rparr>
                    | None \<Rightarrow>
                        (case rx_match rx_conceito_simples mensagemOriginal of
                           Some caps \<Rightarrow>
                             c0\<lparr>param_valor := Some (toLowerCase (trim (grupo caps 1))),
                                param_propriedade := Some (toLowerCase (grupo caps 2))\<rparr>
                         | None \<Rightarrow> c0))
                 else c0)
              in if truthy (param_valor c1) then Some (c1\<lparr>alvo := ''conceito''\<rparr>) else None)
           else None))"

subsection \<open>Answer synthesizer (\<^verbatim>\<open>construirRespostaConsulta\<close>)\<close>

text \<open>\<^verbatim>\<open>s.charAt(0).toUpperCase() + s.slice(1)\<close>.\<close>

definition capitalizar :: "string \<Rightarrow> string" where
  "capitalizar s = toUpperCase (take 1 s) @ drop 1 s"

text \<open>\<open>Inl ()\<close> is a \<^verbatim>\<open>TypeError\<close>: a read of a property of \<^verbatim>\<open>undefined\<close>
  (\<^verbatim>\<open>consulta.parametros.valor\<close> absent, \<^verbatim>\<open>fatos[0]\<close> of an empty array). \<open>Inr None\<close> is
  the result \<^verbatim>\<open>null\<close>.\<close>

definition construirRespostaConsulta :: "consulta \<Rightarrow> resultado_busca \<Rightarrow> unit + string option"
  where
  "construirRespostaConsulta c resultados =
     (case resultados of
        Nada \<Rightarrow> Inr None
      | UmFato f \<Rightarrow>
          if consulta_tipo c = ''identidade'' then
            (if fato_tipo f = ''nome''
             then Inr (Some (''Seu nome '' @ [e_agudo] @ '' '' @ valor f @ ''.''))
             else Inr None)
          else if consulta_tipo c = ''definicao'' then
            Inr (Some (toUpperCase (chave f) @ '' significa '' @ valor f @ ''.''))
          else Inr (Some (chave f @ '': '' @ valor f))
      | Fatos fatos \<Rightarrow>
          if consulta_tipo c = ''relacao'' then
            (if alvo c = ''terceiro'' then
               (case param_valor c of
                  None \<Rightarrow> (if fatos = [] then Inr None else Inl ())
                | Some pv \<Rightarrow>
                    (let fatosEspecificos =
                           filter (\<lambda>f. toLowerCase (valor f) = toLowerCase pv) fatos
                     in if length fatosEspecificos > 0 then
                          Inr (Some (pv @ '' '' @ [e_agudo] @ '' seu ''
                                     @ js_join '', '' (map chave fatosEspecificos) @ ''.''))
                        else
                          (let fatosRelacionados =
                                 filter (\<lambda>f. js_includes (toLowerCase (valor f))
                                                (toLowerCase pv)) fatos
                           in if length fatosRelacionados > 0 then
                                Inr (Some (''Encontrei: ''
                                           @ js_join '', '' (map valor fatosRelacionados)))
                              else Inr None)))
             else
               (case fatos of
                  [] \<Rightarrow> Inl ()
                | f0 # _ \<Rightarrow>
                    (let valores = js_join '', '' (map valor fatos)
                     in if chave f0 = ''amigo'' then
                          (if length fatos = 1
                           then Inr (Some (''Seu amigo '' @ [e_agudo] @ '' '' @ valores @ ''.''))
                           else Inr (Some (''Seus amigos s'' @ [a_til] @ ''o: '' @ valores
                                           @ ''.'')))
                        else Inr (Some (chave f0 @ '': '' @ valores)))))
          else if consulta_tipo c = ''propriedade'' then
            (if alvo c = ''conceito'' then
               (let propriedadesFiltradas =
                      (if truthy (param_propriedade c)
                       then filter (\<lambda>f. js_includes (toLowerCase (chave f))
                                          (ou (param_propriedade c) [])) fatos
                       else [])
                in case param_valor c of
                     None \<Rightarrow> Inl ()
                   | Some pv \<Rightarrow>
                       if length propriedadesFiltradas > 0 then
                         Inr (Some (''As '' @ ou (param_propriedade c) [] @ '' de ''
                                    @ capitalizar pv @ '' s'' @ [a_til] @ ''o: ''
                                    @ js_join '', '' (map valor propriedadesFiltradas)))
                       else
                         Inr (Some (''Informa'' @ [c_cedilha, o_til] @ ''es sobre ''
                                    @ capitalizar pv @ '':'' @ [CHR 10] @ ''- ''
                                    @ js_join ([CHR 10] @ ''- '')
                                        (map (\<lambda>f. chave f @ '': '' @ valor f) fatos))))
             else Inr None)
          else
            Inr (Some (''Encontrei estas informa'' @ [c_cedilha, o_til] @ ''es: ''
                       @ js_join '', '' (map valor fatos))))"

subsection \<open>Message orchestrator (\<^verbatim>\<open>processMessage\<close>)\<close>

record corpo =
  conversation :: "string option"
  extendedText :: "string option"
  imageCaption :: "string option"

record mensagem =
  corpo_mensagem :: "corpo option"
  remoteJid :: string
  participant :: "string option"
  pushName :: "string option"

definition extractMessageText :: "mensagem \<Rightarrow> string option" where
  "extractMessageText message =
     (case corpo_mensagem message of
        None \<Rightarrow> None
      | Some m \<Rightarrow>
          if truthy (conversation m) then map_option trim (conversation m)
          else if truthy (extendedText m) then map_option trim (extendedText m)
          else if truthy (imageCaption m) then map_option trim (imageCaption m)
          else None)"

definition extractSenderInfo :: "mensagem \<Rightarrow> sender_info" where
  "extractSenderInfo message =
     \<lparr>sender_id = hd (js_split ''@'' (ou (participant message) (remoteJid message))),
      sender_name = (if truthy (pushName message) then pushName message else None),
      isGroup = js_includes (remoteJid message) ''@g.us''\<rparr>"

text \<open>The environment of one call: which store operations raise.\<close>

record falhas =
  falha_busca_respostas :: bool
  falha_escrita_respostas :: bool
  falha_busca_fatos :: bool
  falha_salvar_fato :: "fato \<Rightarrow> bool"

text \<open>The calls that \<^verbatim>\<open>processMessage\<close> makes, in order.\<close>

datatype evento =
    BuscouCache
  | ChamouOpenAI string
  | AnalisouTaxonomia
  | Traduziu
  | SalvouResposta resultado_save
  | SalvouFato fato resultado_save

record resultado =
  db_final :: db
  finalResponse :: "string option"
  enviado :: "string option"
  eventos :: "evento list"

text \<open>The \<^verbatim>\<open>switch\<close> that runs the lookup of a query; \<open>None\<close> when
  \<^verbatim>\<open>resultadoConsulta\<close> stays \<^verbatim>\<open>null\<close>.\<close>

definition executar_consulta ::
  "falhas \<Rightarrow> fato_doc list \<Rightarrow> string \<Rightarrow> consulta \<Rightarrow> resultado_busca option" where
  "executar_consulta fl col idUsuario c =
     (if consulta_tipo c = ''identidade'' then
        (if alvo c = ''usuario''
         then Some (findFact (falha_busca_fatos fl) col ''nome'' ''nome'' idUsuario)
         else None)
      else if consulta_tipo c = ''relacao'' then
        (if alvo c = ''usuario''
         then Some (findRelationalFacts (falha_busca_fatos fl) col ''relacao'' idUsuario None)
         else if alvo c = ''terceiro'' \<and> truthy (param_valor c)
         then Some (findRelationalFacts (falha_busca_fatos fl) col ''relacao'' idUsuario
                      (param_valor c))
         else None)
      else if consulta_tipo c = ''definicao'' then
        (if alvo c = ''conceito'' \<and> truthy (param_valor c)
         then Some (findFact (falha_busca_fatos fl) col ''definicao'' (ou (param_valor c) [])
                      ''geral'')
         else None)
      else if consulta_tipo c = ''propriedade'' then
        (if alvo c = ''conceito'' \<and> truthy (param_valor c)
         then Some (findConceptProperties (falha_busca_fatos fl) (falha_busca_fatos fl) col
                      (ou (param_valor c) []))
         else None)
      else None)"

text \<open>The query path of a message that is not a learning command: the specific answer,
  \<open>Inr None\<close> when there is none, \<open>Inl ()\<close> when an exception is raised.\<close>

definition responder_consulta ::
  "falhas \<Rightarrow> fato_doc list \<Rightarrow> string \<Rightarrow> taxonomia \<Rightarrow> string \<Rightarrow> unit + string option" where
  "responder_consulta fl col idUsuario tax processText =
     (case analisarTaxonomia tax processText of
        None \<Rightarrow> Inr None
      | Some analiseConsulta \<Rightarrow>
          (case executar_consulta fl col idUsuario analiseConsulta of
             None \<Rightarrow> Inr None
           | Some resultadoConsulta \<Rightarrow>
               if resultadoConsulta \<noteq> Nada
               then construirRespostaConsulta analiseConsulta resultadoConsulta
               else Inr None))"

text \<open>The loop that saves the translated facts. \<^verbatim>\<open>saveFact\<close> catches its exceptions, so
  the \<^verbatim>\<open>catch (factError)\<close> of the loop is never entered.\<close>

fun salvar_fatos ::
  "(fato \<Rightarrow> bool) \<Rightarrow> nat \<Rightarrow> fato_doc list \<Rightarrow> fato list
     \<Rightarrow> fato_doc list \<times> evento list" where
  "salvar_fatos falha agora col [] = (col, [])"
| "salvar_fatos falha agora col (f # fs) =
     (case saveFact (falha f) agora col f of
        (col', saveResult) \<Rightarrow>
          (case salvar_fatos falha agora col' fs of
             (col'', evs) \<Rightarrow> (col'', SalvouFato f saveResult # evs)))"

definition msg_aprendizado :: "nat \<Rightarrow> string" where
  "msg_aprendizado n =
     ''Aprendizado conclu'' @ [i_agudo] @ ''do com sucesso. '' @ decimal n
     @ '' fatos foram armazenados.''"

definition msg_erro_openai :: string where
  "msg_erro_openai =
     ''Desculpe, n'' @ [a_til] @ ''o consegui processar sua pergunta. ''
     @ ''Por favor, tente novamente mais tarde.''"

definition msg_excecao_openai :: string where
  "msg_excecao_openai =
     ''Estou com problemas para obter uma resposta no momento. ''
     @ ''Por favor, tente novamente mais tarde.''"

text \<open>The branch \<^verbatim>\<open>if (!consultaProcessada || isLearningCommand)\<close>: translation, and for
  a learning command the writes. \<open>None\<close> is the \<^verbatim>\<open>TypeError\<close> of
  \<^verbatim>\<open>traduzirParaModeloDados\<close> on a classification without \<^verbatim>\<open>conhecimento\<close>; it is raised
  before any write. \<^verbatim>\<open>saveResponse\<close> catches its exceptions, so the
  \<^verbatim>\<open>catch (saveError)\<close> is never entered.\<close>

definition aprender_ou_responder ::
  "falhas \<Rightarrow> nat \<Rightarrow> db \<Rightarrow> bool \<Rightarrow> string \<Rightarrow> json_data
     \<Rightarrow> (db \<times> string \<times> evento list) option" where
  "aprender_ou_responder fl agora d isLearningCommand idUsuario dados =
     (case conhecimento dados of
        None \<Rightarrow> None
      | Some conhec \<Rightarrow>
          (let fatos = traduzirParaModeloDados agora conhec idUsuario
           in if isLearningCommand then
                (case saveResponse (falha_busca_respostas fl) (falha_escrita_respostas fl) agora
                        (responses d) (case palavras_chave dados of None \<Rightarrow> [] | Some ks \<Rightarrow> ks)
                        (ou (resposta dados) []) (ou (classificacao dados) []) of
                   (resps, r) \<Rightarrow>
                     (case (if length fatos > 0
                            then salvar_fatos (falha_salvar_fato fl) agora (facts d) fatos
                            else (facts d, [])) of
                        (fs, evs) \<Rightarrow>
                          Some (d\<lparr>responses := resps, facts := fs\<rparr>,
                                msg_aprendizado (length fatos),
                                Traduziu # SalvouResposta r # evs)))
              else Some (d, ou (resposta dados) [], [Traduziu])))"

text \<open>The \<^verbatim>\<open>else\<close> branch of the cache test: the call of the classifier and what follows
  it. The result is the store, \<^verbatim>\<open>finalResponse\<close> and the calls made.\<close>

definition consultar_openai ::
  "falhas \<Rightarrow> (pedido \<Rightarrow> resposta_api) \<Rightarrow> nat \<Rightarrow> db \<Rightarrow> bool \<Rightarrow> string \<Rightarrow> sender_info
     \<Rightarrow> db \<times> string \<times> evento list" where
  "consultar_openai fl openai agora d isLearningCommand processText senderInfo =
     (case getOpenAIResponse openai processText (Some senderInfo) of
        Inl erro \<Rightarrow> (d, msg_erro_openai, [ChamouOpenAI processText])
      | Inr dados \<Rightarrow>
          (case (if \<not> isLearningCommand
                 then (case analise_taxonomica dados of
                         None \<Rightarrow> (Inr None, [])
                       | Some tax \<Rightarrow>
                           (responder_consulta fl (facts d) (sender_id senderInfo) tax
                              processText,
                            [AnalisouTaxonomia]))
                 else (Inr None, [])) of
             (Inl _, evs) \<Rightarrow> (d, msg_excecao_openai, ChamouOpenAI processText # evs)
           | (Inr (Some respostaConsulta), evs) \<Rightarrow>
               (d, respostaConsulta, ChamouOpenAI processText # evs)
           | (Inr None, evs) \<Rightarrow>
               (case aprender_ou_responder fl agora d isLearningCommand (sender_id senderInfo)
                       dados of
                  None \<Rightarrow> (d, msg_excecao_openai, ChamouOpenAI processText # evs)
                | Some (d', texto, evs') \<Rightarrow>
                    (d', texto, ChamouOpenAI processText # evs @ evs'))))"

text \<open>\<^verbatim>\<open>formattedResponse\<close>: the final response after the display name;
  \<open>bot_name\<close> is \<^verbatim>\<open>process.env.BOT_NAME\<close>.\<close>

definition formattedResponse :: "string option \<Rightarrow> string \<Rightarrow> string" where
  "formattedResponse bot_name texto =
     ''*'' @ ou bot_name ''Marvin'' @ ''*'' @ [CHR 10, CHR 10] @ texto"

text \<open>\<^verbatim>\<open>processMessage\<close>. \<open>bot_name\<close> is \<^verbatim>\<open>process.env.BOT_NAME\<close>. \<open>enviado\<close> is the text
  handed to \<^verbatim>\<open>sock.sendMessage\<close>; presence updates and the retry of a send that fails
  belong to the transport and are left out.\<close>

definition processMessage ::
  "string option \<Rightarrow> falhas \<Rightarrow> (pedido \<Rightarrow> resposta_api) \<Rightarrow> nat \<Rightarrow> mensagem \<Rightarrow> db \<Rightarrow> resultado"
  where
  "processMessage bot_name fl openai agora message d =
     (case extractMessageText message of
        None \<Rightarrow> \<lparr>db_final = d, finalResponse = None, enviado = None, eventos = []\<rparr>
      | Some messageText \<Rightarrow>
          if messageText = [] then
            \<lparr>db_final = d, finalResponse = None, enviado = None, eventos = []\<rparr>
          else
            let senderInfo = extractSenderInfo message;
                isLearningCommand = startsWith messageText ''/aprender '';
                processText = (if isLearningCommand then trim (drop 10 messageText)
                               else messageText);
                extractedKeywords = extractKeywords (JsString processText) 10;
                existingResponse =
                  findResponseByKeywords (falha_busca_respostas fl) (responses d)
                    extractedKeywords;
                r = (case existingResponse of
                       Some (i, doc) \<Rightarrow>
                         if \<not> isLearningCommand then (d, doc_resposta doc, [])
                         else consultar_openai fl openai agora d isLearningCommand processText
                                senderInfo
                     | None \<Rightarrow>
                         consultar_openai fl openai agora d isLearningCommand processText
                           senderInfo)
            in case r of
                 (d', texto, evs) \<Rightarrow>
                   \<lparr>db_final = d', finalResponse = Some texto,
                    enviado = Some (formattedResponse bot_name texto),
                    eventos = BuscouCache # evs\<rparr>)"

subsection \<open>Reference definitions that follow the specification\<close>

text \<open>The words of a list in the order in which they are first seen.\<close>

definition primeira_vista :: "string list \<Rightarrow> string list" where
  "primeira_vista ws = rev (remdups (rev ws))"

text \<open>The specification of the keyword extractor: the distinct tokens by descending
  frequency, ties in first-seen order, cut at \<open>maxKeywords\<close>.\<close>

definition spec_extract :: "string \<Rightarrow> nat \<Rightarrow> string list" where
  "spec_extract t maxKeywords =
     take maxKeywords
       (sort_key (\<lambda>w. - int (count_list (filteredWords t) w))
          (primeira_vista (filteredWords t)))"

text \<open>The order in which \<^verbatim>\<open>Object.keys\<close> lists the distinct tokens: array indices
  ascending, then the other tokens as first seen.\<close>

definition ordem_das_chaves :: "string list \<Rightarrow> string list" where
  "ordem_das_chaves ws =
     sort_key valor_numerico (filter is_array_index (primeira_vista ws))
     @ filter (\<lambda>k. \<not> is_array_index k) (primeira_vista ws)"

text \<open>The specification of the cache lookup: of the first ten keywords, the first stored
  response with at least \<open>\<lceil>0.6 \<cdot> count\<rceil>\<close> keywords in common with them. A keyword of the
  response counts when it occurs among the search keywords.\<close>

definition em_comum :: "string list \<Rightarrow> resposta_doc \<Rightarrow> nat" where
  "em_comum searchKeywords r =
     length (filter (\<lambda>kw. kw \<in> set searchKeywords) (doc_palavras_chave r))"

definition spec_findByKeywords ::
  "resposta_doc list \<Rightarrow> string list \<Rightarrow> (nat \<times> resposta_doc) option" where
  "spec_findByKeywords col keywords =
     (let searchKeywords = take 10 keywords;
          minMatches = nat \<lceil>0.6 * real (length searchKeywords)\<rceil>
      in case filter (\<lambda>(i, r). em_comum searchKeywords r \<ge> minMatches) (enumerate 0 col) of
           [] \<Rightarrow> None
         | x # _ \<Rightarrow> Some x)"

subsection \<open>Auxiliary notions of the proofs\<close>

text \<open>A comparator is consistent with a key on a set when it puts \<open>a\<close> before \<open>b\<close>
  exactly when the key of \<open>a\<close> is smaller.\<close>

definition consistente :: "('a \<Rightarrow> 'a \<Rightarrow> int) \<Rightarrow> ('a \<Rightarrow> 'b::linorder) \<Rightarrow> 'a set \<Rightarrow> bool" where
  "consistente cmp key A = (\<forall>a\<in>A. \<forall>b\<in>A. (cmp a b < 0) = (key a < key b))"

text \<open>The fields of a fact that make up its natural key and its value.\<close>

definition nucleo :: "fato \<Rightarrow> string \<times> string \<times> string \<times> string \<times> string option" where
  "nucleo f = (fato_tipo f, chave f, entidade f, valor f, conceito f)"

text \<open>The events that are writes to the store.\<close>

definition escrita :: "evento \<Rightarrow> bool" where
  "escrita ev = (case ev of SalvouResposta _ \<Rightarrow> True | SalvouFato _ _ \<Rightarrow> True | _ \<Rightarrow> False)"

subsection \<open>Example data\<close>

definition ex_contexto :: "string \<Rightarrow> contexto" where
  "ex_contexto c =
     \<lparr>certeza = Some c, fonte = Some ''conversa'', temporalidade = Some ''atual''\<rparr>"

text \<open>"The name of the user is Ana", with a given certainty.\<close>

definition ex_identidade :: "string \<Rightarrow> entrada" where
  "ex_identidade c =
     \<lparr>entrada_id = Some ''entrada_1'', entrada_tipo = Some ''fato_identidade'',
      entrada_sujeito = Some (sujeito_de USUARIO ''5511''),
      entrada_predicado = Some (predicado_de ''nome'' ''Ana''),
      entrada_objeto = None, entrada_contexto = Some (ex_contexto c)\<rparr>"


text \<open>A definition: "\<open>conc\<close> means \<open>v\<close>".\<close>

definition ex_definicao :: "string \<Rightarrow> string \<Rightarrow> entrada" where
  "ex_definicao conc v =
     \<lparr>entrada_id = Some ''entrada_1'', entrada_tipo = Some ''fato_definicao'',
      entrada_sujeito = Some (sujeito_de CONCEITO conc),
      entrada_predicado = Some (predicado_de ''significado'' v),
      entrada_objeto = None, entrada_contexto = Some (ex_contexto ''ALTA'')\<rparr>"


text \<open>The fact of a definition of "API" whose text is 600 letters long.\<close>

definition ex_fato_600 :: fato where
  "ex_fato_600 =
     \<lparr>fato_tipo = ''definicao'', chave = ''api'', entidade = ''geral'',
      valor = replicate 500 (CHR ''a'') @ ''...'', relacionamentos = [],
      fato_contexto =
        Some \<lparr>ctx_certeza = ''ALTA'', ctx_fonte = ''conversa'', ctx_timestamp = Some 0\<rparr>,
      conceito = None, categoria = None\<rparr>"

text \<open>The cached response of the specification's example.\<close>

definition ex_resposta :: resposta_doc where
  "ex_resposta =
     \<lparr>doc_palavras_chave = [''nome'', ''usuario'', ''cadastro''],
      doc_resposta = ''Resposta em cache'', doc_classificacao = ''global'',
      doc_created_at = 0, doc_last_updated = 0\<rparr>"

text \<open>The fact "the name of user 5511 is Ana", translated at time \<open>t\<close>.\<close>

definition ex_fato_nome :: "nat \<Rightarrow> fato" where
  "ex_fato_nome t =
     \<lparr>fato_tipo = ''nome'', chave = ''nome'', entidade = ''5511'', valor = ''Ana'',
      relacionamentos = [],
      fato_contexto =
        Some \<lparr>ctx_certeza = ''ALTA'', ctx_fonte = ''conversa'', ctx_timestamp = Some t\<rparr>,
      conceito = None, categoria = None\<rparr>"

text \<open>The record of that fact, inserted at time 2.\<close>

definition ex_doc_nome :: fato_doc where
  "ex_doc_nome = fato.extend (ex_fato_nome 0) \<lparr>created_at = 2, last_updated = 2\<rparr>"

text \<open>A message of user 5511 in a private conversation.\<close>

definition ex_mensagem :: "string \<Rightarrow> mensagem" where
  "ex_mensagem texto =
     \<lparr>corpo_mensagem =
        Some \<lparr>conversation = Some texto, extendedText = None, imageCaption = None\<rparr>,
      remoteJid = ''5511@s.whatsapp.net'', participant = None, pushName = Some ''Ana''\<rparr>"

definition ex_sender :: sender_info where
  "ex_sender = \<lparr>sender_id = ''5511'', sender_name = Some ''Ana'', isGroup = False\<rparr>"

text \<open>An environment in which the store never raises, and one in which it raises while a
  fact of type \<^verbatim>\<open>nome\<close> is saved.\<close>

definition ex_sem_falhas :: falhas where
  "ex_sem_falhas =
     \<lparr>falha_busca_respostas = False, falha_escrita_respostas = False,
      falha_busca_fatos = False, falha_salvar_fato = (\<lambda>f. False)\<rparr>"

definition ex_falha_nome :: falhas where
  "ex_falha_nome =
     \<lparr>falha_busca_respostas = False, falha_escrita_respostas = False,
      falha_busca_fatos = False, falha_salvar_fato = (\<lambda>f. fato_tipo f = ''nome'')\<rparr>"

text \<open>A store with one cached response and no fact.\<close>

definition ex_db :: db where
  "ex_db = \<lparr>responses = [ex_resposta], facts = [], entities = []\<rparr>"

text \<open>A classification: the kind of interaction, the answer text and the knowledge.\<close>

definition ex_json :: "string \<Rightarrow> string \<Rightarrow> conhecimento option \<Rightarrow> json_data" where
  "ex_json interacao texto conhec =
     \<lparr>palavras_chave = Some [''apelido''], resposta = Some texto,
      classificacao = Some ''pessoal'',
      analise_taxonomica =
        Some \<lparr>tipo_interacao = Some interacao, sujeito_principal = Some USUARIO,
              categoria_conhecimento = Some ''IDENTIDADE'',
              contexto_aplicacao = Some ''PESSOAL'', nivel_certeza = Some ''ALTA''\<rparr>,
      conhecimento = conhec\<rparr>"

text \<open>The fact of "API means interface de programas", translated at time \<open>t\<close>, and its
  record inserted at time \<open>t\<close>.\<close>

definition ex_fato_api :: "nat \<Rightarrow> fato" where
  "ex_fato_api t =
     \<lparr>fato_tipo = ''definicao'', chave = ''api'', entidade = ''geral'',
      valor = ''interface de programas'', relacionamentos = [],
      fato_contexto =
        Some \<lparr>ctx_certeza = ''ALTA'', ctx_fonte = ''conversa'', ctx_timestamp = Some t\<rparr>,
      conceito = None, categoria = None\<rparr>"

definition ex_doc_api :: "nat \<Rightarrow> fato_doc" where
  "ex_doc_api t = fato.extend (ex_fato_api t) \<lparr>created_at = t, last_updated = t\<rparr>"

section \<open>Properties\<close>

subsection \<open>Strings\<close>

text \<open>\<^verbatim>\<open>split\<close> returns at least one part, so the first part that the sources read
  (\<^verbatim>\<open>partes[0]\<close>, \<^verbatim>\<open>split('@')[0]\<close>) exists.\<close>

lemma js_split_nao_vazio: "js_split sep s \<noteq> []"
  by (induction sep s rule: js_split.induct) (auto split: list.splits)

subsection \<open>Fact translator\<close>

lemma map_filter_append:
  "List.map_filter f (xs @ ys) = List.map_filter f xs @ List.map_filter f ys"
  by (simp add: List.map_filter_def)

lemma map_filter_Cons_None:
  "f x = None \<Longrightarrow> List.map_filter f (x # xs) = List.map_filter f xs"
  by (simp add: List.map_filter_def)

lemma set_map_filter: "set (List.map_filter f xs) = {y. \<exists>x\<in>set xs. f x = Some y}"
  by (induction xs) (auto simp: List.map_filter_def)

lemma set_fatosUnicos: "set (fatosUnicos vistas fs) \<subseteq> set fs"
  by (induction fs arbitrary: vistas) auto

lemma mapearEntrada_certeza:
  "certeza_de e \<noteq> Some ''ALTA'' \<Longrightarrow> mapearEntrada agora idUsuario e = None"
  by (simp add: mapearEntrada_def split: option.splits)

lemma traduzirEntrada_certeza:
  "certeza_de e \<noteq> Some ''ALTA'' \<Longrightarrow> traduzirEntrada agora idUsuario e = None"
  by (simp add: traduzirEntrada_def mapearEntrada_certeza)

text \<open>
  \<^bold>\<open>C2\<close> (certainty gate). An entry whose \<^verbatim>\<open>contexto.certeza\<close> is not \<^verbatim>\<open>"ALTA"\<close> (or is
  absent) yields no fact, and in every batch, for every user id and every value of
  \<^verbatim>\<open>armazenar\<close>, the output of the translator is the output for the batch without that
  entry: nothing in the output derives from it.
\<close>

theorem certainty_gate:
  assumes "certeza_de e \<noteq> Some ''ALTA''"
  shows "traduzirEntrada agora idUsuario e = None
       \<and> traduzirParaModeloDados agora \<lparr>armazenar = a, entradas = Some (pre @ e # pos)\<rparr>
           idUsuario
         = traduzirParaModeloDados agora \<lparr>armazenar = a, entradas = Some (pre @ pos)\<rparr>
             idUsuario"
proof -
  have n: "traduzirEntrada agora idUsuario e = None"
    using assms by (rule traduzirEntrada_certeza)
  have m: "List.map_filter (traduzirEntrada agora idUsuario) (pre @ e # pos)
         = List.map_filter (traduzirEntrada agora idUsuario) (pre @ pos)"
    by (simp add: map_filter_append map_filter_Cons_None n)
  have "traduzirParaModeloDados agora \<lparr>armazenar = a, entradas = Some (pre @ e # pos)\<rparr>
          idUsuario
      = traduzirParaModeloDados agora \<lparr>armazenar = a, entradas = Some (pre @ pos)\<rparr> idUsuario"
  proof (cases "pre @ pos = []")
    case True
    then show ?thesis
      by (simp add: traduzirParaModeloDados_def List.map_filter_def n)
  next
    case False
    then show ?thesis
      by (auto simp add: traduzirParaModeloDados_def m simp del: map_filter_simps)
  qed
  with n show ?thesis by simp
qed

theorem certainty_gate_witness:
  "certeza_de (ex_identidade ''BAIXA'') \<noteq> Some ''ALTA''
   \<and> traduzirEntrada 0 ''5511'' (ex_identidade ''BAIXA'') = None
   \<and> traduzirParaModeloDados 0
        \<lparr>armazenar = True,
         entradas = Some ([ex_identidade ''ALTA''] @ ex_identidade ''BAIXA'' # [])\<rparr> ''5511''
     = traduzirParaModeloDados 0
        \<lparr>armazenar = True, entradas = Some ([ex_identidade ''ALTA''] @ [])\<rparr> ''5511''
   \<and> length (traduzirParaModeloDados 0
        \<lparr>armazenar = True, entradas = Some ([ex_identidade ''ALTA''] @ [])\<rparr> ''5511'') = 1"
proof -
  have h: "certeza_de (ex_identidade ''BAIXA'') \<noteq> Some ''ALTA''"
    by (simp add: certeza_de_def ex_identidade_def ex_contexto_def)
  have l: "length (traduzirParaModeloDados 0
        \<lparr>armazenar = True, entradas = Some ([ex_identidade ''ALTA''] @ [])\<rparr> ''5511'') = 1"
    by code_simp
  from certainty_gate [OF h, of 0 "''5511''" True "[ex_identidade ''ALTA'']" "[]"] h l
  show ?thesis by blast
qed


lemma finalizar_Some:
  "finalizar g = Some f \<Longrightarrow>
     fato_tipo f = fato_tipo g \<and> entidade f = entidade g \<and> conceito f = conceito g
     \<and> chave f = trim (toLowerCase (chave g))
     \<and> valor f = (if length (trim (valor g)) > 500 then take 500 (trim (valor g)) @ ''...''
                  else trim (valor g))
     \<and> valor f \<noteq> []"
  by (auto simp: finalizar_def Let_def split: if_splits)








lemma ou_normalizarCampo:
  "truthy v \<Longrightarrow> \<exists>raw. v = Some raw \<and> ou (normalizarCampo v) [] = normalizarValor raw"
  by (cases v) (auto simp: truthy_def ou_def normalizarCampo_def)

lemma mapear_valor:
  assumes "mapear agora u e tipo s p ob = Some g"
  shows "valor g = (if tipo = ''fato_relacao''
                    then ou (case ob of None \<Rightarrow> None | Some x \<Rightarrow> sujeito_valor x) []
                    else ou (predicado_valor p) [])"
  using assms by (auto simp: mapear_def Let_def split: if_splits)

lemma mapearEntrada_valor:
  assumes "mapearEntrada agora u e = Some g"
  shows "\<exists>raw. (if entrada_tipo e = Some ''fato_relacao''
               then \<exists>ob. entrada_objeto e = Some ob \<and> sujeito_valor ob = Some raw
               else \<exists>p. entrada_predicado e = Some p \<and> predicado_valor p = Some raw)
             \<and> valor g = normalizarValor raw"
proof -
  from assms obtain s p where sp: "entrada_sujeito e = Some s" "entrada_predicado e = Some p"
    by (auto simp: mapearEntrada_def split: option.splits)
  from assms sp obtain tipo where t: "entrada_tipo e = Some tipo" "tipo \<noteq> []"
    by (cases "entrada_tipo e") (auto simp: mapearEntrada_def truthy_def split: if_splits)
  from assms sp t have cv: "campos_validos tipo s p (entrada_objeto e)"
    and m: "mapear agora u e tipo (normalizarSujeito s) (normalizarPredicado p)
              (map_option normalizarSujeito (entrada_objeto e)) = Some g"
    by (auto simp: mapearEntrada_def truthy_def ou_def Let_def split: if_splits)
  note v = mapear_valor [OF m]
  show ?thesis
  proof (cases "tipo = ''fato_relacao''")
    case True
    with cv obtain ob where ob: "entrada_objeto e = Some ob" "truthy (sujeito_valor ob)"
      by (auto simp: campos_validos_def split: option.splits)
    from ou_normalizarCampo [OF ob(2)] obtain raw where
      "sujeito_valor ob = Some raw" "ou (normalizarCampo (sujeito_valor ob)) [] = normalizarValor raw"
      by blast
    with v True ob t show ?thesis by (simp add: normalizarSujeito_def)
  next
    case False
    from assms sp t have "tipo \<in> set tiposPermitidos"
      by (auto simp: mapearEntrada_def truthy_def ou_def Let_def split: if_splits)
    with cv False have "truthy (predicado_valor p)"
      by (auto simp: campos_validos_def tiposPermitidos_def split: if_splits)
    from ou_normalizarCampo [OF this] obtain raw where
      "predicado_valor p = Some raw" "ou (normalizarCampo (predicado_valor p)) [] = normalizarValor raw"
      by blast
    with v False sp t show ?thesis by (simp add: normalizarPredicado_def)
  qed
qed

text \<open>
  \<^bold>\<open>C9\<close> (truncation). Every fact \<open>f\<close> of the output of the translator comes from an
  entry \<open>e\<close> of the batch through the mapped fact \<open>g\<close>, whose value is the normalised raw
  value of the entry (the object value of a relation, the predicate value otherwise).
  When the trimmed value of \<open>g\<close> is longer than 500 characters, the value of \<open>f\<close> is its
  first 500 characters followed by \<^verbatim>\<open>...\<close>; otherwise it is the trimmed value. In
  particular (the witness) a value of 600 letters is kept as its first 500 letters and
  the ellipsis.
\<close>

theorem value_truncated:
  assumes "f \<in> set (traduzirParaModeloDados agora conhec idUsuario)"
  shows "\<exists>es e g raw. entradas conhec = Some es \<and> e \<in> set es
           \<and> mapearEntrada agora idUsuario e = Some g \<and> finalizar g = Some f
           \<and> (if entrada_tipo e = Some ''fato_relacao''
               then \<exists>ob. entrada_objeto e = Some ob \<and> sujeito_valor ob = Some raw
               else \<exists>p. entrada_predicado e = Some p \<and> predicado_valor p = Some raw)
           \<and> valor g = normalizarValor raw
           \<and> (length (trim (valor g)) > 500
                \<longrightarrow> valor f = take 500 (trim (valor g)) @ ''...'')
           \<and> (length (trim (valor g)) \<le> 500 \<longrightarrow> valor f = trim (valor g))"
proof -
  from assms obtain es where es: "entradas conhec = Some es"
    and "f \<in> set (fatosUnicos [] (List.map_filter (traduzirEntrada agora idUsuario) es))"
    by (cases "entradas conhec")
       (auto simp: traduzirParaModeloDados_def split: if_splits)
  then have "f \<in> set (List.map_filter (traduzirEntrada agora idUsuario) es)"
    using set_fatosUnicos by blast
  then obtain e where e: "e \<in> set es" "traduzirEntrada agora idUsuario e = Some f"
    by (auto simp: set_map_filter)
  then obtain g where g: "mapearEntrada agora idUsuario e = Some g" "finalizar g = Some f"
    by (auto simp: traduzirEntrada_def split: option.splits)
  from mapearEntrada_valor [OF g(1)] obtain raw where
    raw: "(if entrada_tipo e = Some ''fato_relacao''
               then \<exists>ob. entrada_objeto e = Some ob \<and> sujeito_valor ob = Some raw
               else \<exists>p. entrada_predicado e = Some p \<and> predicado_valor p = Some raw)"
        "valor g = normalizarValor raw"
    by blast
  from finalizar_Some [OF g(2)]
  have "(length (trim (valor g)) > 500 \<longrightarrow> valor f = take 500 (trim (valor g)) @ ''...'')
      \<and> (length (trim (valor g)) \<le> 500 \<longrightarrow> valor f = trim (valor g))"
    by simp
  with es e(1) g raw show ?thesis by blast
qed

theorem value_truncated_witness:
  "ex_fato_600 \<in> set (traduzirParaModeloDados 0
      \<lparr>armazenar = True,
       entradas = Some [ex_definicao ''API'' (replicate 600 (CHR ''a''))]\<rparr> ''5511'')
   \<and> valor ex_fato_600 = replicate 500 (CHR ''a'') @ ''...''
   \<and> (\<exists>g. finalizar g = Some ex_fato_600 \<and> valor g = replicate 600 (CHR ''a'')
          \<and> length (trim (valor g)) = 600)"
proof -
  let ?k = "\<lparr>armazenar = True,
             entradas = Some [ex_definicao ''API'' (replicate 600 (CHR ''a''))]\<rparr>"
  have t: "traduzirParaModeloDados 0 ?k ''5511'' = [ex_fato_600]"
    by code_simp
  then have h: "ex_fato_600 \<in> set (traduzirParaModeloDados 0 ?k ''5511'')"
    by simp
  have n: "normalizarValor (replicate 600 (CHR ''a'')) = replicate 600 (CHR ''a'')"
    by code_simp
  have l: "length (trim (replicate 600 (CHR ''a''))) = 600"
    by code_simp
  from value_truncated [OF h] obtain e g raw where
    e: "e \<in> set [ex_definicao ''API'' (replicate 600 (CHR ''a''))]"
    and g: "finalizar g = Some ex_fato_600"
    and r: "(if entrada_tipo e = Some ''fato_relacao''
             then \<exists>ob. entrada_objeto e = Some ob \<and> sujeito_valor ob = Some raw
             else \<exists>p. entrada_predicado e = Some p \<and> predicado_valor p = Some raw)"
    and v: "valor g = normalizarValor raw"
    by auto
  from e r have "raw = replicate 600 (CHR ''a'')"
    by (simp add: ex_definicao_def predicado_de_def)
  with v n l g have "finalizar g = Some ex_fato_600 \<and> valor g = replicate 600 (CHR ''a'')
      \<and> length (trim (valor g)) = 600"
    by simp
  then have "\<exists>g. finalizar g = Some ex_fato_600 \<and> valor g = replicate 600 (CHR ''a'')
      \<and> length (trim (valor g)) = 600" ..
  with h show ?thesis by (simp add: ex_fato_600_def)
qed

subsection \<open>Response cache\<close>

text \<open>The ceiling of the specification is the integer expression of the model.\<close>

lemma min_match_ceiling: "nat \<lceil>0.6 * real n\<rceil> = (3 * n + 4) div 5"
  by linarith

lemma filter_filter_implied:
  "(\<And>x. Q x \<Longrightarrow> P x) \<Longrightarrow> filter Q (filter P xs) = filter Q xs"
  by (induction xs) auto

lemma em_comum_pos:
  "0 < length (filter (\<lambda>kw. kw \<in> set ks) ws) \<Longrightarrow> list_ex (\<lambda>kw. kw \<in> set ks) ws"
  by (induction ws) (auto split: if_splits)

text \<open>
  \<^bold>\<open>C5\<close>, as stated, fails for an empty keyword list: the minimum is then 0 and every
  stored response has at least 0 keywords in common with the input, but the query
  \<^verbatim>\<open>{ $in: [] }\<close> selects no document and the lookup finds nothing. (The message
  \<^verbatim>\<open>oi\<close> has no keyword.)
\<close>

theorem cache_lookup_counterexample:
  "findResponseByKeywords False [ex_resposta] [] = None
   \<and> spec_findByKeywords [ex_resposta] [] = Some (0, ex_resposta)"
  by (simp add: findResponseByKeywords_def spec_findByKeywords_def em_comum_def ex_resposta_def)

text \<open>
  \<^bold>\<open>C5\<close>, amended. For a keyword list that is not empty, \<^verbatim>\<open>findResponseByKeywords\<close>
  takes the first 10 keywords, computes \<open>minMatches = \<lceil>0.6 \<cdot> count\<rceil>\<close> and returns the first
  stored response (in store order) with at least \<open>minMatches\<close> of its keywords among them;
  for the empty list, and when the store raises, it finds nothing. The cached entry with
  the keywords nome, usuario, cadastro is hit by nome, usuario, endereco and missed by
  nome, endereco.
\<close>

theorem cache_lookup:
  "findResponseByKeywords False col keywords
     = (if keywords = [] then None else spec_findByKeywords col keywords)
   \<and> findResponseByKeywords True col keywords = None
   \<and> findResponseByKeywords False [ex_resposta] [''nome'', ''usuario'', ''endereco'']
     = Some (0, ex_resposta)
   \<and> findResponseByKeywords False [ex_resposta] [''nome'', ''endereco''] = None"
proof -
  have a: "findResponseByKeywords False col keywords
     = (if keywords = [] then None else spec_findByKeywords col keywords)"
  proof (cases "keywords = []")
    case True
    then show ?thesis by (simp add: findResponseByKeywords_def list_ex_iff)
  next
    case False
    let ?sk = "take 10 keywords"
    let ?m = "(3 * length ?sk + 4) div 5"
    have sk: "take (min (length keywords) 10) keywords = ?sk"
      by (simp add: min_def)
    from False have "length ?sk \<ge> 1" by (cases "keywords") auto
    then have m1: "?m \<ge> 1" by linarith
    let ?P = "\<lambda>(i :: nat, r). list_ex (\<lambda>kw. kw \<in> set ?sk) (doc_palavras_chave r)"
    let ?Q = "\<lambda>(i :: nat, r).
                ?m \<le> length (filter (\<lambda>kw. kw \<in> set ?sk) (doc_palavras_chave r))"
    have imp: "\<And>x. ?Q x \<Longrightarrow> ?P x"
      using m1 by (auto intro!: em_comum_pos)
    have l: "findResponseByKeywords False col keywords
           = (case filter ?Q (filter ?P (enumerate 0 col)) of [] \<Rightarrow> None | x # _ \<Rightarrow> Some x)"
      by (simp only: findResponseByKeywords_def Let_def sk if_False)
    have r: "spec_findByKeywords col keywords
           = (case filter ?Q (enumerate 0 col) of [] \<Rightarrow> None | x # _ \<Rightarrow> Some x)"
      by (simp only: spec_findByKeywords_def Let_def em_comum_def min_match_ceiling)
    from l r False show ?thesis
      by (simp only: filter_filter_implied [of ?Q ?P, OF imp] if_False)
  qed
  have b: "findResponseByKeywords True col keywords = None"
    by (simp add: findResponseByKeywords_def)
  have c: "findResponseByKeywords False [ex_resposta] [''nome'', ''usuario'', ''endereco'']
     = Some (0, ex_resposta)"
    by (simp add: findResponseByKeywords_def ex_resposta_def)
  have d: "findResponseByKeywords False [ex_resposta] [''nome'', ''endereco''] = None"
    by (simp add: findResponseByKeywords_def ex_resposta_def)
  from a b c d show ?thesis by simp
qed

subsection \<open>Sorting\<close>

text \<open>With a comparator that is consistent with a key, the sort of the engine is the
  stable sort by that key: the binary search finds the position after the elements whose
  key is not greater, so an element is inserted behind its equals, and a descending run
  is strict, so reversing it moves no element past an equal one.\<close>

lemma busca_binaria_pos:
  fixes key :: "'a \<Rightarrow> 'b::linorder"
  assumes "sorted (map key arr)" and c: "consistente cmp key (insert pivot (set arr))"
    and "left \<le> right" and "right \<le> length arr"
    and "\<forall>i<left. key (arr ! i) \<le> key pivot"
    and "\<forall>i. right \<le> i \<and> i < length arr \<longrightarrow> key pivot < key (arr ! i)"
  shows "busca_binaria cmp pivot arr left right \<le> length arr
       \<and> (\<forall>i<busca_binaria cmp pivot arr left right. key (arr ! i) \<le> key pivot)
       \<and> (\<forall>i. busca_binaria cmp pivot arr left right \<le> i \<and> i < length arr \<longrightarrow> key pivot < key (arr ! i))"
  using assms
proof (induction cmp pivot arr left right rule: busca_binaria.induct)
  case (1 cmp pivot arr left right)
  show ?case
  proof (cases "left < right")
    case False
    with "1.prems" have lr: "left = right" by simp
    have "busca_binaria cmp pivot arr left right = left"
      using False by (subst busca_binaria.simps) simp
    with "1.prems" lr show ?thesis by simp
  next
    case True
    define mid where "mid = left + (right - left) div 2"
    have m: "left \<le> mid" "mid < right" "mid < length arr"
      using True "1.prems"(4) by (auto simp: mid_def)
    have cm: "(cmp pivot (arr ! mid) < 0) = (key pivot < key (arr ! mid))"
      using "1.prems"(2) m by (simp add: consistente_def)
    from "1.prems"(1) have s: "\<And>i j. i \<le> j \<Longrightarrow> j < length arr \<Longrightarrow> key (arr ! i) \<le> key (arr ! j)"
      by (simp add: sorted_iff_nth_mono)
    show ?thesis
    proof (cases "cmp pivot (arr ! mid) < 0")
      case t: True
      have u: "\<forall>i. mid \<le> i \<and> i < length arr \<longrightarrow> key pivot < key (arr ! i)"
      proof (intro allI impI)
        fix i assume "mid \<le> i \<and> i < length arr"
        with s [of mid i] cm t show "key pivot < key (arr ! i)" by auto
      qed
      from "1.IH"(1) [OF True mid_def t "1.prems"(1,2) m(1) _ "1.prems"(5) u] m
      have "busca_binaria cmp pivot arr left mid \<le> length arr
       \<and> (\<forall>i<busca_binaria cmp pivot arr left mid. key (arr ! i) \<le> key pivot)
       \<and> (\<forall>i. busca_binaria cmp pivot arr left mid \<le> i \<and> i < length arr \<longrightarrow> key pivot < key (arr ! i))"
        by simp
      moreover have "busca_binaria cmp pivot arr left right = busca_binaria cmp pivot arr left mid"
        using True t by (subst busca_binaria.simps) (simp add: mid_def Let_def)
      ultimately show ?thesis by simp
    next
      case f: False
      have u: "\<forall>i<mid + 1. key (arr ! i) \<le> key pivot"
      proof (intro allI impI)
        fix i assume "i < mid + 1"
        with s [of i mid] cm f m show "key (arr ! i) \<le> key pivot" by auto
      qed
      from m have le: "mid + 1 \<le> right" by simp
      from "1.IH"(2) [OF True mid_def f "1.prems"(1,2) le "1.prems"(4) u "1.prems"(6)]
      have "busca_binaria cmp pivot arr (mid + 1) right \<le> length arr
       \<and> (\<forall>i<busca_binaria cmp pivot arr (mid + 1) right. key (arr ! i) \<le> key pivot)
       \<and> (\<forall>i. busca_binaria cmp pivot arr (mid + 1) right \<le> i \<and> i < length arr \<longrightarrow> key pivot < key (arr ! i))"
        by simp
      moreover have "busca_binaria cmp pivot arr left right = busca_binaria cmp pivot arr (mid + 1) right"
        using True f by (subst busca_binaria.simps) (simp add: mid_def Let_def)
      ultimately show ?thesis by simp
    qed
  qed
qed


lemma filter_take_drop: "filter P (take n xs) @ filter P (drop n xs) = filter P xs"
  by (metis append_take_drop_id filter_append)

lemma consistente_mono: "consistente cmp key A \<Longrightarrow> B \<subseteq> A \<Longrightarrow> consistente cmp key B"
  by (auto simp: consistente_def)

lemma insere_estavel:
  fixes key :: "'a \<Rightarrow> 'b::linorder"
  assumes s: "sorted (map key arr)" and c: "consistente cmp key (insert pivot (set arr))"
  defines "l \<equiv> busca_binaria cmp pivot arr 0 (length arr)"
  shows "sorted (map key (take l arr @ pivot # drop l arr))"
    and "filter (\<lambda>x. key x = k) (take l arr @ pivot # drop l arr)
           = filter (\<lambda>x. key x = k) (arr @ [pivot])"
proof -
  have "\<forall>i<(0::nat). key (arr ! i) \<le> key pivot"
    and "\<forall>i. length arr \<le> i \<and> i < length arr \<longrightarrow> key pivot < key (arr ! i)"
    by auto
  from busca_binaria_pos [OF s c _ _ this]
  have l: "l \<le> length arr" "\<forall>i<l. key (arr ! i) \<le> key pivot"
    "\<forall>i. l \<le> i \<and> i < length arr \<longrightarrow> key pivot < key (arr ! i)"
    by (simp_all add: l_def)
  have a: "\<forall>x\<in>set (take l arr). key x \<le> key pivot"
  proof
    fix x assume "x \<in> set (take l arr)"
    then obtain i where "i < length (take l arr)" "x = take l arr ! i"
      by (auto simp: in_set_conv_nth)
    with l(1,2) show "key x \<le> key pivot" by simp
  qed
  have b: "\<forall>x\<in>set (drop l arr). key pivot < key x"
  proof
    fix x assume "x \<in> set (drop l arr)"
    then obtain i where i: "i < length (drop l arr)" "x = drop l arr ! i"
      by (auto simp: in_set_conv_nth)
    then have "l + i < length arr" "x = arr ! (l + i)" using l(1) by simp_all
    with l(3) show "key pivot < key x" by simp
  qed
  from s have "sorted (map key (take l arr @ drop l arr))" by simp
  then have st: "sorted (map key (take l arr))" "sorted (map key (drop l arr))"
    "\<forall>x\<in>set (take l arr). \<forall>y\<in>set (drop l arr). key x \<le> key y"
    unfolding map_append sorted_append by auto
  show "sorted (map key (take l arr @ pivot # drop l arr))"
    unfolding map_append sorted_append list.map sorted_simps
    using st a b by (auto intro: less_imp_le)
  have d: "key pivot = k \<Longrightarrow> filter (\<lambda>x. key x = k) (drop l arr) = []"
    using b by (auto simp: filter_empty_conv)
  have "filter (\<lambda>x. key x = k) (arr @ [pivot])
          = filter (\<lambda>x. key x = k) (take l arr @ drop l arr @ [pivot])"
    by (simp add: filter_take_drop [of _ l arr, symmetric])
  also have "\<dots> = filter (\<lambda>x. key x = k) (take l arr @ pivot # drop l arr)"
    using d by (cases "key pivot = k") simp_all
  finally show "filter (\<lambda>x. key x = k) (take l arr @ pivot # drop l arr)
           = filter (\<lambda>x. key x = k) (arr @ [pivot])" by simp
qed

lemma binaryInsertionSort_estavel:
  fixes key :: "'a \<Rightarrow> 'b::linorder"
  assumes "sorted (map key arr)" and "consistente cmp key (set arr \<union> set ps)"
  shows "sorted (map key (binaryInsertionSort cmp arr ps))
       \<and> (\<forall>k. filter (\<lambda>x. key x = k) (binaryInsertionSort cmp arr ps)
                = filter (\<lambda>x. key x = k) (arr @ ps))
       \<and> mset (binaryInsertionSort cmp arr ps) = mset (arr @ ps)"
  using assms
proof (induction ps arbitrary: arr)
  case Nil
  then show ?case by simp
next
  case (Cons p ps)
  define l where "l = busca_binaria cmp p arr 0 (length arr)"
  define arr' where "arr' = take l arr @ p # drop l arr"
  have c: "consistente cmp key (insert p (set arr))"
    using Cons.prems(2) by (rule consistente_mono) auto
  note i = insere_estavel [OF Cons.prems(1) c, folded l_def arr'_def]
  have td: "mset (take l arr) + mset (drop l arr) = mset arr"
    by (metis append_take_drop_id mset_append)
  have "mset arr' = mset (take l arr) + mset (drop l arr) + {#p#}"
    by (simp add: arr'_def)
  then have m: "mset arr' = mset arr + {#p#}" by (simp only: td)
  have "set arr' = set (take l arr @ drop l arr) \<union> {p}"
    unfolding arr'_def set_append by auto
  then have "set arr' = insert p (set arr)" by simp
  with Cons.prems(2) have c': "consistente cmp key (set arr' \<union> set ps)" by simp
  note h = Cons.IH [OF i(1) c']
  have e: "binaryInsertionSort cmp arr (p # ps) = binaryInsertionSort cmp arr' ps"
    by (simp add: l_def arr'_def Let_def)
  have f: "\<forall>k. filter (\<lambda>x. key x = k) (binaryInsertionSort cmp arr' ps)
                = filter (\<lambda>x. key x = k) (arr @ p # ps)"
  proof
    fix k
    from h have "filter (\<lambda>x. key x = k) (binaryInsertionSort cmp arr' ps)
                = filter (\<lambda>x. key x = k) arr' @ filter (\<lambda>x. key x = k) ps"
      by simp
    also have "\<dots> = filter (\<lambda>x. key x = k) (arr @ [p]) @ filter (\<lambda>x. key x = k) ps"
      by (simp only: i(2))
    finally show "filter (\<lambda>x. key x = k) (binaryInsertionSort cmp arr' ps)
                = filter (\<lambda>x. key x = k) (arr @ p # ps)" by simp
  qed
  from h have "mset (binaryInsertionSort cmp arr' ps) = mset arr' + mset ps" by simp
  with m have g: "mset (binaryInsertionSort cmp arr' ps) = mset (arr @ p # ps)" by simp
  from h f g show ?case unfolding e by blast
qed

lemma corrida_ascendente:
  fixes key :: "'a \<Rightarrow> 'b::linorder"
  assumes "consistente cmp key (insert prev (set xs))"
  shows "sorted (map key (prev # take (corrida cmp False prev xs) xs))"
  using assms
proof (induction xs arbitrary: prev)
  case Nil
  then show ?case by simp
next
  case (Cons x xs)
  have c: "(cmp x prev < 0) = (key x < key prev)"
    using Cons.prems by (simp add: consistente_def)
  have "consistente cmp key (insert x (set xs))"
    using Cons.prems by (rule consistente_mono) auto
  from Cons.IH [OF this] c show ?case by (auto simp: Let_def)
qed

lemma corrida_descendente:
  fixes key :: "'a \<Rightarrow> 'b::linorder"
  assumes "consistente cmp key (insert prev (set xs))"
  shows "sorted_wrt (\<lambda>a b. key b < key a) (prev # take (corrida cmp True prev xs) xs)"
  using assms
proof (induction xs arbitrary: prev)
  case Nil
  then show ?case by simp
next
  case (Cons x xs)
  have c: "(cmp x prev < 0) = (key x < key prev)"
    using Cons.prems by (simp add: consistente_def)
  have "consistente cmp key (insert x (set xs))"
    using Cons.prems by (rule consistente_mono) auto
  from Cons.IH [OF this] c show ?case by (auto simp: Let_def)
qed

lemma filter_rev_descendente:
  fixes key :: "'a \<Rightarrow> 'b::linorder"
  shows "sorted_wrt (\<lambda>a b. key b < key a) xs
   \<Longrightarrow> filter (\<lambda>x. key x = k) (rev xs) = filter (\<lambda>x. key x = k) xs"
proof (induction xs)
  case Nil
  then show ?case by simp
next
  case (Cons a xs)
  then have "key a = k \<Longrightarrow> filter (\<lambda>x. key x = k) xs = []"
    by (auto simp: filter_empty_conv)
  with Cons show ?case by (cases "key a = k") simp_all
qed

lemma sorted_rev_descendente:
  fixes key :: "'a \<Rightarrow> 'b::linorder"
  shows "sorted_wrt (\<lambda>a b. key b < key a) xs \<Longrightarrow> sorted (map key (rev xs))"
proof -
  assume "sorted_wrt (\<lambda>a b. key b < key a) xs"
  then have "sorted_wrt (\<lambda>a b. key a < key b) (rev xs)"
    by (simp add: sorted_wrt_rev)
  then have "sorted_wrt (\<lambda>a b. key a \<le> key b) (rev xs)"
    by (rule sorted_wrt_mono_rel [rotated]) (simp add: less_imp_le)
  then show ?thesis by (simp add: sorted_map)
qed

lemma countAndMakeRun_estavel:
  fixes key :: "'a \<Rightarrow> 'b::linorder"
  assumes c: "consistente cmp key (set xs)" and r: "countAndMakeRun cmp xs = (run, rest)"
  shows "sorted (map key run)
       \<and> (\<forall>k. filter (\<lambda>x. key x = k) (run @ rest) = filter (\<lambda>x. key x = k) xs)
       \<and> mset (run @ rest) = mset xs"
proof (cases xs)
  case Nil
  with r show ?thesis by (simp add: countAndMakeRun_def)
next
  case (Cons x0 ys)
  show ?thesis
  proof (cases ys)
    case Nil
    with Cons r show ?thesis by (auto simp: countAndMakeRun_def)
  next
    case (Cons x1 zs)
    note xs = \<open>xs = x0 # ys\<close> Cons
    have c1: "consistente cmp key (insert x1 (set zs))"
      using c by (rule consistente_mono) (auto simp: xs)
    have c0: "(cmp x1 x0 < 0) = (key x1 < key x0)"
      using c by (simp add: consistente_def xs)
    show ?thesis
    proof (cases "cmp x1 x0 < 0")
      case True
      define n where "n = corrida cmp True x1 zs"
      from r True have run: "run = rev (x0 # x1 # take n zs)" and rest: "rest = drop n zs"
        by (simp_all add: countAndMakeRun_def xs Let_def n_def)
      from corrida_descendente [OF c1] True c0
      have d: "sorted_wrt (\<lambda>a b. key b < key a) (x0 # x1 # take n zs)"
        by (auto simp: n_def)
      have td: "mset (take n zs) + mset (drop n zs) = mset zs"
        by (metis append_take_drop_id mset_append)
      have "mset (run @ rest) = add_mset x0 (add_mset x1 (mset (take n zs) + mset (drop n zs)))"
        unfolding run rest by simp
      then have m: "mset (run @ rest) = mset xs" by (simp only: td xs mset.simps)
      have f: "\<forall>k. filter (\<lambda>x. key x = k) (run @ rest) = filter (\<lambda>x. key x = k) xs"
      proof
        fix k
        have "filter (\<lambda>x. key x = k) (run @ rest)
              = filter (\<lambda>x. key x = k) (rev (x0 # x1 # take n zs)) @ filter (\<lambda>x. key x = k) (drop n zs)"
          unfolding run rest by simp
        also have "\<dots> = filter (\<lambda>x. key x = k) (x0 # x1 # take n zs)
                          @ filter (\<lambda>x. key x = k) (drop n zs)"
          unfolding filter_rev_descendente [OF d] by simp
        also have "\<dots> = filter (\<lambda>x. key x = k) ((x0 # x1 # take n zs) @ drop n zs)"
          by (simp only: filter_append)
        also have "(x0 # x1 # take n zs) @ drop n zs = xs"
          by (simp add: xs)
        finally show "filter (\<lambda>x. key x = k) (run @ rest) = filter (\<lambda>x. key x = k) xs" .
      qed
      from sorted_rev_descendente [OF d] m f show ?thesis unfolding run by blast
    next
      case False
      define n where "n = corrida cmp False x1 zs"
      from r False have run: "run = x0 # x1 # take n zs" and rest: "rest = drop n zs"
        by (simp_all add: countAndMakeRun_def xs Let_def n_def)
      from corrida_ascendente [OF c1] False c0
      have "sorted (map key (x0 # x1 # take n zs))"
        by (auto simp: n_def)
      moreover have "(x0 # x1 # take n zs) @ drop n zs = xs"
        by (simp add: xs)
      ultimately show ?thesis unfolding run rest by simp
    qed
  qed
qed

lemma countAndMakeRun_set:
  "countAndMakeRun cmp xs = (run, rest) \<Longrightarrow> set run \<union> set rest = set xs"
proof -
  assume r: "countAndMakeRun cmp xs = (run, rest)"
  have "\<exists>n. (run = take n xs \<or> run = rev (take n xs)) \<and> rest = drop n xs"
  proof (cases xs)
    case Nil
    with r show ?thesis by (simp add: countAndMakeRun_def)
  next
    case (Cons x0 ys)
    show ?thesis
    proof (cases ys)
      case Nil
      with Cons r show ?thesis by (auto simp: countAndMakeRun_def intro: exI [of _ 1])
    next
      case c: (Cons x1 zs)
      with Cons r show ?thesis
        by (auto simp: countAndMakeRun_def Let_def split: if_splits
              intro: exI [of _ "Suc (Suc (corrida cmp (cmp x1 x0 < 0) x1 zs))"])
    qed
  qed
  then obtain n where "set run = set (take n xs)" "rest = drop n xs" by auto
  then have "set run \<union> set rest = set (take n xs @ drop n xs)" by (simp only: set_append)
  then show ?thesis by simp
qed

lemma array_sort_estavel:
  fixes key :: "'a \<Rightarrow> 'b::linorder"
  assumes "consistente cmp key (set xs)"
  shows "array_sort cmp xs = sort_key key xs"
proof (cases "length xs < 2")
  case True
  then have "xs = [] \<or> (\<exists>x. xs = [x])"
    by (cases xs) (auto simp: length_Suc_conv)
  then show ?thesis using True by (auto simp: array_sort_def)
next
  case False
  obtain run rest where r: "countAndMakeRun cmp xs = (run, rest)"
    by (cases "countAndMakeRun cmp xs")
  note a = countAndMakeRun_estavel [OF assms r]
  from countAndMakeRun_set [OF r] assms have c: "consistente cmp key (set run \<union> set rest)"
    by simp
  from a have s: "sorted (map key run)" by simp
  note b = binaryInsertionSort_estavel [OF s c]
  let ?ys = "binaryInsertionSort cmp run rest"
  have 1: "mset ?ys = mset xs" using a b by simp
  have 2: "\<And>k. k \<in> set ?ys \<Longrightarrow> filter (\<lambda>x. key k = key x) ?ys = filter (\<lambda>x. key k = key x) xs"
  proof -
    fix k
    have e: "(\<lambda>x. key k = key x) = (\<lambda>x. key x = key k)" by auto
    from a b show "filter (\<lambda>x. key k = key x) ?ys = filter (\<lambda>x. key k = key x) xs"
      unfolding e by simp
  qed
  have 3: "sorted (map key ?ys)" using b by simp
  from properties_for_sort_key [OF 1 2 3] have "sort_key key xs = ?ys" by simp
  with False r show ?thesis by (simp add: array_sort_def)
qed

subsection \<open>Keyword extractor\<close>

lemma primeira_vista_snoc:
  "primeira_vista (ws @ [w]) = (if w \<in> set ws then primeira_vista ws else primeira_vista ws @ [w])"
  by (simp add: primeira_vista_def)

lemma set_primeira_vista: "set (primeira_vista ws) = set ws"
  by (simp add: primeira_vista_def)

lemma distinct_primeira_vista: "distinct (primeira_vista ws)"
  by (simp add: primeira_vista_def)

lemma chaves_contar:
  "map fst (contar w obj) = (if w \<in> set (map fst obj) then map fst obj else map fst obj @ [w])"
proof (induction obj)
  case Nil
  then show ?case by simp
next
  case (Cons a obj)
  obtain k n where a: "a = (k, n)" by (cases a)
  show ?case
  proof (cases "k = w")
    case True
    then show ?thesis by (simp add: a)
  next
    case False
    with Cons show ?thesis by (simp add: a)
  qed
qed

lemma valores_contar:
  "map_of (contar w obj) v
     = (if v = w
        then Some (case map_of obj w of
                     None \<Rightarrow> if w = ''constructor'' then NaoNumero else Numero 1
                   | Some c \<Rightarrow> mais_um c)
        else map_of obj v)"
  by (induction obj) auto

lemma wordFrequency_chaves:
  "map fst (foldl (\<lambda>obj w. contar w obj) [] ws) = primeira_vista ws"
proof (induction ws rule: rev_induct)
  case Nil
  then show ?case by (simp add: primeira_vista_def)
next
  case (snoc w ws)
  have "set (map fst (foldl (\<lambda>obj w. contar w obj) [] ws)) = set ws"
    using snoc by (simp add: set_primeira_vista)
  with snoc show ?case
    by (simp add: chaves_contar primeira_vista_snoc del: set_map)
qed

text \<open>Without the token \<^verbatim>\<open>constructor\<close> every value of \<^verbatim>\<open>wordFrequency\<close> is the number of
  occurrences of its token.\<close>

lemma wordFrequency_valores:
  "''constructor'' \<notin> set ws
   \<Longrightarrow> map_of (foldl (\<lambda>obj w. contar w obj) [] ws) v
         = (if v \<in> set ws then Some (Numero (count_list ws v)) else None)"
proof (induction ws rule: rev_induct)
  case Nil
  then show ?case by simp
next
  case (snoc w ws)
  then show ?case by (auto simp: valores_contar)
qed

lemma comparar_consistente:
  assumes "''constructor'' \<notin> set ws"
  shows "consistente (comparar (foldl (\<lambda>obj w. contar w obj) [] ws))
           (\<lambda>w. - int (count_list ws w)) (set ws)"
  unfolding consistente_def comparar_def
  by (auto simp: wordFrequency_valores [OF assms])

lemma object_keys_wordFrequency:
  "object_keys (foldl (\<lambda>obj w. contar w obj) [] ws) = ordem_das_chaves ws"
  by (simp add: object_keys_def ordem_das_chaves_def wordFrequency_chaves)

lemma set_ordem_das_chaves: "set (ordem_das_chaves ws) = set ws"
  by (auto simp: ordem_das_chaves_def set_primeira_vista)

text \<open>Without the token \<^verbatim>\<open>constructor\<close> the comparator is consistent and the sort is the
  stable sort by descending count.\<close>

lemma extractKeywords_eq:
  assumes "''constructor'' \<notin> set (filteredWords t)"
  shows "extractKeywords (JsString t) n
     = take n (sort_key (\<lambda>w. - int (count_list (filteredWords t) w))
                 (ordem_das_chaves (filteredWords t)))"
proof (cases "t = []")
  case True
  have "filteredWords [] = []" by code_simp
  with True show ?thesis
    by (simp add: extractKeywords_def ordem_das_chaves_def primeira_vista_def)
next
  case False
  have "consistente (comparar (foldl (\<lambda>obj w. contar w obj) [] (filteredWords t)))
          (\<lambda>w. - int (count_list (filteredWords t) w))
          (set (ordem_das_chaves (filteredWords t)))"
    using comparar_consistente [OF assms] by (simp only: set_ordem_das_chaves)
  from array_sort_estavel [OF this] False show ?thesis
    by (simp add: extractKeywords_def Let_def object_keys_wordFrequency)
qed

lemma distinct_ordem_das_chaves: "distinct (ordem_das_chaves ws)"
  by (auto simp: ordem_das_chaves_def distinct_primeira_vista)

lemma ordem_sem_indices:
  "\<forall>w\<in>set ws. \<not> is_array_index w \<Longrightarrow> ordem_das_chaves ws = primeira_vista ws"
  by (simp add: ordem_das_chaves_def set_primeira_vista filter_empty_conv)

text \<open>
  \<^bold>\<open>C10\<close>, as stated, fails on ties between a token that is a decimal numeral and a
  token seen before it: in \<^verbatim>\<open>casa 2024\<close> both tokens occur once and \<^verbatim>\<open>casa\<close> is seen
  first, but \<^verbatim>\<open>Object.keys\<close> lists the array index \<^verbatim>\<open>2024\<close> first and the stable sort
  keeps that order.
\<close>

theorem keywords_tie_counterexample:
  "extractKeywords (JsString ''casa 2024'') 10 = [''2024'', ''casa'']
   \<and> spec_extract ''casa 2024'' 10 = [''casa'', ''2024'']
   \<and> filteredWords ''casa 2024'' = [''casa'', ''2024'']"
  by code_simp

text \<open>
  With the token \<^verbatim>\<open>constructor\<close> the comparator yields \<^verbatim>\<open>NaN\<close> for every pair that holds
  it, and the result is no longer in the order of the frequencies: the token stays before
  one that occurs more often.
\<close>

lemma keywords_inherited_property_example:
  "extractKeywords (JsString ''constructor casa casa'') 10 = [''constructor'', ''casa'']
   \<and> filteredWords ''constructor casa casa'' = [''constructor'', ''casa'', ''casa'']"
  by code_simp

text \<open>
  \<^bold>\<open>C10\<close>, amended. \<^verbatim>\<open>extractKeywords\<close> lower-cases the text, strips the punctuation set,
  collapses runs of white space, splits on spaces and drops the tokens of length at most
  2 and the stop words (\<open>filteredWords\<close>). For a text none of whose tokens is the word
  \<^verbatim>\<open>constructor\<close>, it returns the first \<open>maxKeywords\<close> of the distinct tokens sorted by
  descending frequency, where tokens of equal frequency stand in the order of
  \<^verbatim>\<open>Object.keys\<close>: the tokens that are array indices (canonical decimal numerals below
  \<open>2^32 - 1\<close>) in ascending numeric order, then the other tokens in first-seen order.
  When moreover no token is an array index this is the specified order (ties in
  first-seen order). For such a text the result has at most \<open>maxKeywords\<close> tokens, all
  distinct, all tokens of the text, in descending frequency. The function has no state,
  and the empty string and a value that is not a string yield the empty list.
\<close>

theorem keywords_ranked:
  assumes "''constructor'' \<notin> set (filteredWords t)"
  shows "extractKeywords (JsString t) n
           = take n (sort_key (\<lambda>w. - int (count_list (filteredWords t) w))
                       (ordem_das_chaves (filteredWords t)))
       \<and> ((\<forall>w\<in>set (filteredWords t). \<not> is_array_index w)
            \<longrightarrow> extractKeywords (JsString t) n = spec_extract t n)
       \<and> length (extractKeywords (JsString t) n) \<le> n
       \<and> distinct (extractKeywords (JsString t) n)
       \<and> set (extractKeywords (JsString t) n) \<subseteq> set (filteredWords t)
       \<and> sorted_wrt (\<lambda>a b. count_list (filteredWords t) a \<ge> count_list (filteredWords t) b)
            (extractKeywords (JsString t) n)
       \<and> filteredWords t
           = filter (\<lambda>w. length w > 2 \<and> w \<notin> set STOP_WORDS)
               (js_split '' '' (collapse_ws (filter (\<lambda>c. c \<notin> set PONTUACAO) (toLowerCase t))))
       \<and> extractKeywords (JsString []) n = []
       \<and> extractKeywords JsOutro n = []"
proof -
  let ?ws = "filteredWords t"
  let ?f = "\<lambda>w. - int (count_list ?ws w)"
  let ?r = "extractKeywords (JsString t) n"
  note eq = extractKeywords_eq [OF assms, of n]
  have a: "(\<forall>w\<in>set ?ws. \<not> is_array_index w) \<longrightarrow> ?r = spec_extract t n"
    by (simp add: eq spec_extract_def ordem_sem_indices)
  have b: "length ?r \<le> n" by (simp add: eq)
  have c: "distinct ?r" by (simp add: eq distinct_ordem_das_chaves)
  have d: "set ?r \<subseteq> set ?ws"
    using set_take_subset [of n "sort_key ?f (ordem_das_chaves ?ws)"]
    by (simp add: eq set_ordem_das_chaves)
  have "sorted (map ?f (sort_key ?f (ordem_das_chaves ?ws)))"
    by (rule sorted_sort_key)
  then have "sorted_wrt (\<lambda>a b. ?f a \<le> ?f b) (sort_key ?f (ordem_das_chaves ?ws))"
    by (simp add: sorted_map)
  then have "sorted_wrt (\<lambda>a b. ?f a \<le> ?f b) ?r"
    unfolding eq by (rule sorted_wrt_take)
  then have e: "sorted_wrt (\<lambda>a b. count_list ?ws a \<ge> count_list ?ws b) ?r"
    by simp
  have f: "?ws = filter (\<lambda>w. length w > 2 \<and> w \<notin> set STOP_WORDS)
               (js_split '' '' (collapse_ws (filter (\<lambda>c. c \<notin> set PONTUACAO) (toLowerCase t))))"
    by (simp add: filteredWords_def)
  have g: "extractKeywords (JsString []) n = []" "extractKeywords JsOutro n = []"
    by (simp_all add: extractKeywords_def)
  show ?thesis by (intro conjI eq a b c d e f g)
qed

theorem keywords_ranked_witness:
  "''constructor'' \<notin> set (filteredWords ''Casa azul, casa grande 2024!'')
   \<and> extractKeywords (JsString ''Casa azul, casa grande 2024!'') 10
     = [''casa'', ''2024'', ''azul'', ''grande'']"
proof -
  let ?t = "''Casa azul, casa grande 2024!''"
  have h: "''constructor'' \<notin> set (filteredWords ?t)"
    by code_simp
  have e: "take 10 (sort_key (\<lambda>w. - int (count_list (filteredWords ?t) w))
                      (ordem_das_chaves (filteredWords ?t)))
         = [''casa'', ''2024'', ''azul'', ''grande'']"
    by code_simp
  from keywords_ranked [OF h, of 10] e h show ?thesis by simp
qed

subsection \<open>Fact store\<close>

lemma findOne_Some:
  "findOne P xs = Some i \<Longrightarrow> i < length xs \<and> P (xs ! i)"
proof (induction xs arbitrary: i)
  case Nil
  then show ?case by simp
next
  case (Cons x xs)
  then show ?case by (cases "P x") auto
qed

lemma findOne_append_novo:
  "findOne P xs = None \<Longrightarrow> P y \<Longrightarrow> findOne P (xs @ [y]) = Some (length xs)"
  by (induction xs) (auto split: if_splits)

lemma satisfaz_novo:
  "satisfaz (consulta_de nf) (fato.extend nf \<lparr>created_at = t, last_updated = t\<rparr>)"
  by (cases nf) (auto simp: satisfaz_def consulta_de_def fato.extend_def truthy_def
                   split: option.splits)

lemma valor_novo: "valor (fato.extend nf \<lparr>created_at = t, last_updated = t'\<rparr>) = valor nf"
  by (cases nf) (simp add: fato.extend_def)

lemma valor_normalizedFact: "valor (normalizedFact f) = valor f"
  by (simp add: normalizedFact_def)

text \<open>The update that \<^verbatim>\<open>saveFact\<close> sends names \<^verbatim>\<open>last_updated\<close> under both operators, so
  the server refuses it.\<close>

lemma updateOne_conflito:
  "updateOne i (updateData t nf) [''last_updated''] t' col = None"
  by (simp add: updateOne_def updateData_def)

text \<open>A save of a fact whose query finds a record fails and changes nothing.\<close>

lemma saveFact_existente:
  assumes "findOne (satisfaz (consulta_de (normalizedFact f))) col = Some i"
  shows "saveFact falha t col f = (col, Falhou)"
  using assms by (simp add: saveFact_def Let_def updateOne_conflito)

text \<open>A save that succeeds is an insertion, after which the query of the fact finds the
  new record.\<close>

lemma saveFact_sucesso:
  assumes "saveFact falha t col f = (col1, Sucesso b)"
  shows "\<not> b
       \<and> col1 = col @ [fato.extend (normalizedFact f) \<lparr>created_at = t, last_updated = t\<rparr>]
       \<and> findOne (satisfaz (consulta_de (normalizedFact f))) col1 = Some (length col)"
proof (cases "findOne (satisfaz (consulta_de (normalizedFact f))) col")
  case None
  with assms have c: "col1 = col @ [fato.extend (normalizedFact f) \<lparr>created_at = t, last_updated = t\<rparr>]"
    and b: "\<not> b"
    by (auto simp: saveFact_def Let_def split: if_splits)
  from findOne_append_novo [OF None satisfaz_novo] c b show ?thesis by simp
next
  case (Some i)
  from saveFact_existente [OF Some] assms show ?thesis by simp
qed

lemma fato_base_tempo:
  "fato_tipo (fato_base t2 e) = fato_tipo (fato_base t1 e)"
  "chave (fato_base t2 e) = chave (fato_base t1 e)"
  "entidade (fato_base t2 e) = entidade (fato_base t1 e)"
  "valor (fato_base t2 e) = valor (fato_base t1 e)"
  "conceito (fato_base t2 e) = conceito (fato_base t1 e)"
  by (simp_all add: fato_base_def)

text \<open>The key, the value and the concept of a translated fact do not depend on the clock.\<close>

lemma mapear_tempo:
  "map_option nucleo (mapear t2 u e tipo s p ob) = map_option nucleo (mapear t1 u e tipo s p ob)"
  by (simp add: mapear_def Let_def nucleo_def fato_base_def)

lemma mapearEntrada_tempo:
  "map_option nucleo (mapearEntrada t2 u e) = map_option nucleo (mapearEntrada t1 u e)"
  by (simp add: mapearEntrada_def Let_def mapear_tempo [of t2 _ _ _ _ _ _ t1]
           split: option.splits)

lemma finalizar_nucleo:
  "nucleo g = nucleo g' \<Longrightarrow> map_option nucleo (finalizar g) = map_option nucleo (finalizar g')"
  by (simp add: finalizar_def nucleo_def Let_def)

lemma traduzirEntrada_tempo:
  "map_option nucleo (traduzirEntrada t2 u e) = map_option nucleo (traduzirEntrada t1 u e)"
proof -
  have m: "map_option nucleo (mapearEntrada t2 u e) = map_option nucleo (mapearEntrada t1 u e)"
    by (rule mapearEntrada_tempo)
  show ?thesis
  proof (cases "mapearEntrada t1 u e")
    case None
    with m show ?thesis by (simp add: traduzirEntrada_def)
  next
    case (Some g1)
    with m obtain g2 where g2: "mapearEntrada t2 u e = Some g2" "nucleo g2 = nucleo g1"
      by (cases "mapearEntrada t2 u e") auto
    from finalizar_nucleo [OF g2(2)] Some g2(1) show ?thesis
      by (simp add: traduzirEntrada_def)
  qed
qed

lemma consulta_nucleo:
  "nucleo f = nucleo f' \<Longrightarrow> consulta_de (normalizedFact f) = consulta_de (normalizedFact f')"
  by (simp add: nucleo_def consulta_de_def normalizedFact_def)

lemma traduzir_um:
  "traduzirParaModeloDados t \<lparr>armazenar = True, entradas = Some [e]\<rparr> u = [f]
   \<Longrightarrow> traduzirEntrada t u e = Some f"
  by (cases "traduzirEntrada t u e")
     (simp_all add: traduzirParaModeloDados_def List.map_filter_def)

text \<open>
  \<^bold>\<open>C1\<close> (idempotent upsert) does not hold of the code: the second save is refused. Let
  an entry be translated twice (at any two times) into the facts \<open>f1\<close> and \<open>f2\<close>, and let
  the first be saved with success into any collection. That save is an insertion. Both
  facts have the same value and the same query on the natural key (type, key, entity,
  and the concept of a concept property), and in the collection after the first save
  the query finds the inserted record. The update that \<^verbatim>\<open>saveFact\<close> then sends names
  \<^verbatim>\<open>last_updated\<close> under \<^verbatim>\<open>$set\<close> and under \<^verbatim>\<open>$currentDate\<close>; the server refuses it, and the
  second call returns \<^verbatim>\<open>{ success: false }\<close>, not \<^verbatim>\<open>updated = true\<close>, and leaves the
  collection as it was. No duplicate is inserted, but the record is not updated either.
\<close>

theorem second_save_is_refused:
  assumes tr1: "traduzirParaModeloDados t1 \<lparr>armazenar = True, entradas = Some [e]\<rparr> idUsuario = [f1]"
      and tr2: "traduzirParaModeloDados t2 \<lparr>armazenar = True, entradas = Some [e]\<rparr> idUsuario = [f2]"
      and s1: "saveFact False t3 col f1 = (col1, Sucesso b1)"
  shows "saveFact False t4 col1 f2 = (col1, Falhou)
       \<and> \<not> b1
       \<and> col1 = col @ [fato.extend (normalizedFact f1) \<lparr>created_at = t3, last_updated = t3\<rparr>]
       \<and> valor f2 = valor f1
       \<and> consulta_de (normalizedFact f2) = consulta_de (normalizedFact f1)
       \<and> findOne (satisfaz (consulta_de (normalizedFact f2))) col1 = Some (length col)"
proof -
  from traduzirEntrada_tempo [of t2 idUsuario e t1] traduzir_um [OF tr1] traduzir_um [OF tr2]
  have n: "nucleo f2 = nucleo f1" by simp
  then have v: "valor f2 = valor f1" by (simp add: nucleo_def)
  note q = consulta_nucleo [OF n]
  from saveFact_sucesso [OF s1]
  have b: "\<not> b1"
    and c: "col1 = col @ [fato.extend (normalizedFact f1) \<lparr>created_at = t3, last_updated = t3\<rparr>]"
    and i1: "findOne (satisfaz (consulta_de (normalizedFact f1))) col1 = Some (length col)"
    by blast+
  from i1 have i: "findOne (satisfaz (consulta_de (normalizedFact f2))) col1 = Some (length col)"
    by (simp only: q)
  from saveFact_existente [OF i]
  have "saveFact False t4 col1 f2 = (col1, Falhou)" .
  with b c v q i show ?thesis by blast
qed

theorem second_save_is_refused_witness:
  "traduzirParaModeloDados 0 \<lparr>armazenar = True, entradas = Some [ex_identidade ''ALTA'']\<rparr>
      ''5511'' = [ex_fato_nome 0]
   \<and> traduzirParaModeloDados 1 \<lparr>armazenar = True, entradas = Some [ex_identidade ''ALTA'']\<rparr>
      ''5511'' = [ex_fato_nome 1]
   \<and> saveFact False 2 [] (ex_fato_nome 0) = ([ex_doc_nome], Sucesso False)
   \<and> saveFact False 3 [ex_doc_nome] (ex_fato_nome 1) = ([ex_doc_nome], Falhou)"
proof -
  let ?k = "\<lparr>armazenar = True, entradas = Some [ex_identidade ''ALTA'']\<rparr>"
  have tr1: "traduzirParaModeloDados 0 ?k ''5511'' = [ex_fato_nome 0]"
    by code_simp
  have tr2: "traduzirParaModeloDados 1 ?k ''5511'' = [ex_fato_nome 1]"
    by code_simp
  have s1: "saveFact False 2 [] (ex_fato_nome 0) = ([ex_doc_nome], Sucesso False)"
    by code_simp
  from second_save_is_refused [OF tr1 tr2 s1, of 3] tr1 tr2 s1 show ?thesis by simp
qed

text \<open>The same holds when the second fact carries another value: the record keeps the
  value of the first save.\<close>

lemma changed_value_is_refused_example:
  "saveFact False 3 [ex_doc_nome] ((ex_fato_nome 1)\<lparr>valor := ''Bia''\<rparr>)
     = ([ex_doc_nome], Falhou)
   \<and> valor ex_doc_nome = ''Ana''"
  by code_simp

subsection \<open>Classifier adapter\<close>

lemma certeza_forcar: "certeza_de (forcar_certeza e) = Some ''ALTA''"
  by (simp add: certeza_de_def forcar_certeza_def)

lemma certeza_manual: "certeza_de (entrada_manual x) = Some ''ALTA''"
  by (cases x) (simp add: certeza_de_def entrada_manual_def)

lemma forcar_certeza_campos:
  "entrada_id (forcar_certeza e) = entrada_id e"
  "entrada_tipo (forcar_certeza e) = entrada_tipo e"
  "entrada_sujeito (forcar_certeza e) = entrada_sujeito e"
  "entrada_predicado (forcar_certeza e) = entrada_predicado e"
  "entrada_objeto (forcar_certeza e) = entrada_objeto e"
  by (simp_all add: forcar_certeza_def)

text \<open>
  The branch of the adapter for a learning command. When the text given to the adapter
  starts with \<^verbatim>\<open>/aprender\<close> and a space, every result that the adapter returns with success
  has \<^verbatim>\<open>conhecimento.armazenar = true\<close> and a list of entries that is not empty, each with
  \<^verbatim>\<open>contexto.certeza = "ALTA"\<close>. When the classification has no entries, the list is the
  single entry that the deterministic extraction builds from the text of the command;
  otherwise it is the list of the classification with the certainty of every entry
  overwritten and nothing else changed. (A classification without the required fields, a
  service error and an exception inside the extraction make the adapter fail instead.)
  \<^verbatim>\<open>processMessage\<close>, the one caller of the adapter, never passes such a text for a message
  that starts with the prefix once; see below.
\<close>

lemma adapter_forces_storage_given_prefix:
  assumes l: "startsWith userMessage ''/aprender ''"
      and r: "getOpenAIResponse openai userMessage senderInfo = Inr dados"
  shows "\<exists>jsonData c es.
           openai (pedido_de userMessage senderInfo) = Json jsonData
         \<and> conhecimento dados = Some c \<and> armazenar c \<and> entradas c = Some es \<and> es \<noteq> []
         \<and> (\<forall>e\<in>set es. certeza_de e = Some ''ALTA'')
         \<and> (sem_entradas (conhecimento jsonData)
              \<longrightarrow> (\<exists>x. extrair_manual (trim (drop 10 userMessage)) senderInfo = Some x
                       \<and> es = [entrada_manual x]))
         \<and> (\<not> sem_entradas (conhecimento jsonData)
              \<longrightarrow> (\<exists>c0 es0. conhecimento jsonData = Some c0 \<and> entradas c0 = Some es0
                       \<and> es = map forcar_certeza es0
                       \<and> map entrada_tipo es = map entrada_tipo es0
                       \<and> map entrada_sujeito es = map entrada_sujeito es0
                       \<and> map entrada_predicado es = map entrada_predicado es0
                       \<and> map entrada_objeto es = map entrada_objeto es0))
         \<and> palavras_chave dados = palavras_chave jsonData
         \<and> resposta dados = resposta jsonData"
proof -
  from r obtain j where j: "openai (pedido_de userMessage senderInfo) = Json j"
    by (cases "openai (pedido_de userMessage senderInfo)")
       (auto simp: getOpenAIResponse_def)
  from r j l have ok: "\<not> (palavras_chave j = None \<or> \<not> truthy (resposta j)
      \<or> \<not> truthy (classificacao j) \<or> analise_taxonomica j = None)"
    by (auto simp: getOpenAIResponse_def split: if_splits)
  show ?thesis
  proof (cases "sem_entradas (conhecimento j)")
    case True
    with r j l ok obtain x where
      x: "extrair_manual (trim (drop 10 userMessage)) senderInfo = Some x"
      and d: "dados = j\<lparr>conhecimento :=
                Some \<lparr>armazenar = True, entradas = Some [entrada_manual x]\<rparr>\<rparr>"
      by (cases "extrair_manual (trim (drop 10 userMessage)) senderInfo")
         (auto simp: getOpenAIResponse_def)
    show ?thesis
      using j True x d
      by (intro exI [of _ j] exI [of _ "\<lparr>armazenar = True, entradas = Some [entrada_manual x]\<rparr>"]
            exI [of _ "[entrada_manual x]"])
         (simp add: certeza_manual)
  next
    case False
    then obtain c0 es0 where c0: "conhecimento j = Some c0" "entradas c0 = Some es0" "es0 \<noteq> []"
      by (auto simp: sem_entradas_def split: option.splits)
    from r j l ok False have d: "dados = j\<lparr>conhecimento :=
        map_option forcar_armazenamento (conhecimento j)\<rparr>"
      by (auto simp: getOpenAIResponse_def)
    show ?thesis
      using j False c0 d
      by (intro exI [of _ j] exI [of _ "forcar_armazenamento c0"]
            exI [of _ "map forcar_certeza es0"])
         (simp add: forcar_armazenamento_def certeza_forcar forcar_certeza_campos comp_def)
  qed
qed

lemma adapter_forces_storage_given_prefix_example:
  "startsWith (''/aprender meu nome '' @ [e_agudo] @ '' Ana'') ''/aprender ''
   \<and> getOpenAIResponse (\<lambda>p. Json (ex_json ''informativa'' ''Armazenei'' None))
        (''/aprender meu nome '' @ [e_agudo] @ '' Ana'') (Some ex_sender)
     = Inr (ex_json ''informativa'' ''Armazenei''
              (Some \<lparr>armazenar = True,
                     entradas = Some [entrada_manual (''fato_identidade'',
                                        sujeito_de USUARIO ''5511'',
                                        predicado_de ''nome'' ''Ana'')]\<rparr>))
   \<and> (\<exists>c es. conhecimento (ex_json ''informativa'' ''Armazenei''
              (Some \<lparr>armazenar = True,
                     entradas = Some [entrada_manual (''fato_identidade'',
                                        sujeito_de USUARIO ''5511'',
                                        predicado_de ''nome'' ''Ana'')]\<rparr>)) = Some c
          \<and> armazenar c \<and> entradas c = Some es \<and> es \<noteq> []
          \<and> list_all (\<lambda>e. certeza_de e = Some ''ALTA'') es)"
proof -
  let ?m = "''/aprender meu nome '' @ [e_agudo] @ '' Ana''"
  let ?d = "ex_json ''informativa'' ''Armazenei''
              (Some \<lparr>armazenar = True,
                     entradas = Some [entrada_manual (''fato_identidade'',
                                        sujeito_de USUARIO ''5511'',
                                        predicado_de ''nome'' ''Ana'')]\<rparr>)"
  have l: "startsWith ?m ''/aprender ''"
    by code_simp
  have r: "getOpenAIResponse (\<lambda>p. Json (ex_json ''informativa'' ''Armazenei'' None)) ?m
             (Some ex_sender) = Inr ?d"
    by code_simp
  from adapter_forces_storage_given_prefix [OF l r]
  have "\<exists>c es. conhecimento ?d = Some c \<and> armazenar c \<and> entradas c = Some es \<and> es \<noteq> []
          \<and> list_all (\<lambda>e. certeza_de e = Some ''ALTA'') es"
    by (auto simp: list_all_iff)
  with l r show ?thesis by blast
qed

text \<open>
  The extraction has a defect of its own. The pattern \<^verbatim>\<open>/^[^:]+ \xE9 [^:]+$/i\<close> ignores
  the case of the letter, the \<^verbatim>\<open>split(' \xE9 ')\<close> that follows does not: for a text written
  with the capital letter there is no second part, \<^verbatim>\<open>partes[1].trim()\<close> raises and the
  adapter returns a failure although the classification was well formed.
\<close>

lemma fallback_capital_letter_example:
  "getOpenAIResponse (\<lambda>p. Json (ex_json ''informativa'' ''Armazenei'' None))
     (''/aprender JAVA '' @ [E_agudo] @ '' UMA LINGUAGEM'') (Some ex_sender)
   = Inl ErroProcessamento"
  by code_simp

text \<open>
  \<^bold>\<open>C7\<close> (a learning command forces storage) does not hold of the code. For a message
  that starts with \<^verbatim>\<open>/aprender\<close> and a space, \<^verbatim>\<open>processMessage\<close> removes the prefix
  (\<^verbatim>\<open>processText = messageText.substring(10).trim()\<close>) and calls the adapter with the
  rest; the adapter tests the text it is given for the prefix, does not find it, and
  forces nothing: its result is the classification as the classifier gave it. For the
  message \<^verbatim>\<open>/aprender meu nome \xE9 Ana\<close> and a classifier that answers with
  \<^verbatim>\<open>armazenar = false\<close> and no entry, the adapter is called with \<^verbatim>\<open>meu nome \xE9 Ana\<close>, the
  knowledge of its result has \<^verbatim>\<open>armazenar = false\<close> and no entry, no fact is saved and the
  reply reports 0 facts.
\<close>

theorem learning_command_stores_nothing:
  "startsWith (''/aprender meu nome '' @ [e_agudo] @ '' Ana'') ''/aprender ''
   \<and> eventos (processMessage None ex_sem_falhas
       (\<lambda>p. Json (ex_json ''informativa'' ''Armazenei''
                     (Some \<lparr>armazenar = False, entradas = Some []\<rparr>)))
       7 (ex_mensagem (''/aprender meu nome '' @ [e_agudo] @ '' Ana'')) ex_db)
     = [BuscouCache, ChamouOpenAI (''meu nome '' @ [e_agudo] @ '' Ana''), Traduziu,
        SalvouResposta (Sucesso False)]
   \<and> getOpenAIResponse
       (\<lambda>p. Json (ex_json ''informativa'' ''Armazenei''
                     (Some \<lparr>armazenar = False, entradas = Some []\<rparr>)))
       (''meu nome '' @ [e_agudo] @ '' Ana'') (Some ex_sender)
     = Inr (ex_json ''informativa'' ''Armazenei''
              (Some \<lparr>armazenar = False, entradas = Some []\<rparr>))
   \<and> facts (db_final (processMessage None ex_sem_falhas
       (\<lambda>p. Json (ex_json ''informativa'' ''Armazenei''
                     (Some \<lparr>armazenar = False, entradas = Some []\<rparr>)))
       7 (ex_mensagem (''/aprender meu nome '' @ [e_agudo] @ '' Ana'')) ex_db)) = []
   \<and> finalResponse (processMessage None ex_sem_falhas
       (\<lambda>p. Json (ex_json ''informativa'' ''Armazenei''
                     (Some \<lparr>armazenar = False, entradas = Some []\<rparr>)))
       7 (ex_mensagem (''/aprender meu nome '' @ [e_agudo] @ '' Ana'')) ex_db)
     = Some (''Aprendizado conclu'' @ [i_agudo]
             @ ''do com sucesso. 0 fatos foram armazenados.'')"
  by code_simp

text \<open>So the result of the adapter for the learning command has knowledge that is not to
  be stored and holds no entry.\<close>

theorem learning_command_stores_nothing_witness:
  "\<exists>dados c. getOpenAIResponse
       (\<lambda>p. Json (ex_json ''informativa'' ''Armazenei''
                     (Some \<lparr>armazenar = False, entradas = Some []\<rparr>)))
       (''meu nome '' @ [e_agudo] @ '' Ana'') (Some ex_sender) = Inr dados
     \<and> conhecimento dados = Some c \<and> \<not> armazenar c \<and> entradas c = Some []"
  using learning_command_stores_nothing by (simp add: ex_json_def)

subsection \<open>Message orchestrator\<close>

lemma analisarTaxonomia_alvo:
  assumes "analisarTaxonomia tax t = Some c"
  shows "alvo c = ''usuario''
       \<or> (alvo c = ''terceiro'' \<and> truthy (param_valor c))
       \<or> (alvo c = ''conceito'' \<and> truthy (param_valor c))"
  using assms
  by (auto simp: analisarTaxonomia_def Let_def truthy_def toLowerCase_def
           split: if_splits option.splits)

lemma findFact_nao_lista: "findFact falha col tipo k ent \<noteq> Fatos fs"
  by (simp add: findFact_def split: option.splits)

lemma findRelationalFacts_nao_vazio:
  "findRelationalFacts falha col tipo ent v = Fatos fs \<Longrightarrow> fs \<noteq> []"
  by (auto simp: findRelationalFacts_def Let_def split: if_splits)

lemma findConceptProperties_nao_vazio:
  "findConceptProperties falha falha' col conc = Fatos fs \<Longrightarrow> fs \<noteq> []"
  by (auto simp: findConceptProperties_def Let_def split: if_splits resultado_busca.splits)

lemma executar_consulta_nao_vazio:
  "executar_consulta fl col u c = Some (Fatos fs) \<Longrightarrow> fs \<noteq> []"
  by (auto simp: executar_consulta_def findFact_nao_lista
           dest: findRelationalFacts_nao_vazio findConceptProperties_nao_vazio
           split: if_splits)

lemma construir_sem_excecao:
  assumes "alvo c = ''usuario''
       \<or> (alvo c = ''terceiro'' \<and> truthy (param_valor c))
       \<or> (alvo c = ''conceito'' \<and> truthy (param_valor c))"
    and "\<And>fs. r = Fatos fs \<Longrightarrow> fs \<noteq> []"
  shows "construirRespostaConsulta c r \<noteq> Inl ()"
proof (cases r)
  case Nada
  then show ?thesis by (simp add: construirRespostaConsulta_def)
next
  case (UmFato f)
  then show ?thesis by (simp add: construirRespostaConsulta_def)
next
  case (Fatos fs)
  with assms(2) obtain f0 fs' where fs: "fs = f0 # fs'" by (cases fs) auto
  from assms(1) show ?thesis
    by (auto simp: construirRespostaConsulta_def Let_def Fatos fs truthy_def
             split: option.splits)
qed

text \<open>The query path raises no exception.\<close>

lemma responder_consulta_sem_excecao:
  "responder_consulta fl col u tax t \<noteq> Inl ()"
proof (cases "analisarTaxonomia tax t")
  case None
  then show ?thesis by (simp add: responder_consulta_def)
next
  case (Some c)
  note a = analisarTaxonomia_alvo [OF Some]
  show ?thesis
  proof (cases "executar_consulta fl col u c")
    case None
    with Some show ?thesis by (simp add: responder_consulta_def)
  next
    case (Some r)
    have "\<And>fs. r = Fatos fs \<Longrightarrow> fs \<noteq> []"
      using Some executar_consulta_nao_vazio by blast
    from construir_sem_excecao [OF a this] Some \<open>analisarTaxonomia tax t = Some c\<close>
    show ?thesis by (simp add: responder_consulta_def)
  qed
qed

lemma getOpenAIResponse_valido:
  "getOpenAIResponse openai userMessage senderInfo = Inr dados
   \<Longrightarrow> truthy (resposta dados) \<and> palavras_chave dados \<noteq> None \<and> analise_taxonomica dados \<noteq> None"
  by (cases "openai (pedido_de userMessage senderInfo)")
     (auto simp: getOpenAIResponse_def Let_def split: if_splits option.splits)

lemma aprender_ou_responder_pergunta:
  "aprender_ou_responder fl agora d False u dados
     = (case conhecimento dados of
          None \<Rightarrow> None
        | Some k \<Rightarrow> Some (d, ou (resposta dados) [], [Traduziu]))"
  by (simp add: aprender_ou_responder_def Let_def split: option.splits)

text \<open>Outside a learning command the classifier path returns the store it was given and
  makes no write.\<close>

lemma consultar_openai_pergunta:
  assumes "consultar_openai fl openai agora d False processText senderInfo = (d', texto, evs)"
  shows "d' = d \<and> (\<forall>ev\<in>set evs. \<not> escrita ev)"
  using assms
  by (auto simp: consultar_openai_def aprender_ou_responder_pergunta escrita_def
           split: sum.splits option.splits prod.splits if_splits)

lemma consultar_openai_resposta:
  assumes "getOpenAIResponse openai processText (Some senderInfo) = Inr dados"
      and "analise_taxonomica dados = Some tax"
      and "responder_consulta fl (facts d) (sender_id senderInfo) tax processText = Inr None"
      and "conhecimento dados = Some k"
  shows "consultar_openai fl openai agora d False processText senderInfo
       = (d, ou (resposta dados) [], [ChamouOpenAI processText, AnalisouTaxonomia, Traduziu])"
  using assms
  by (simp add: consultar_openai_def aprender_ou_responder_pergunta)

lemma processMessage_cases:
  assumes "extractMessageText message = Some messageText" "messageText \<noteq> []"
      and "\<not> startsWith messageText ''/aprender ''"
  shows "processMessage bot_name fl openai agora message d
       = (case (case findResponseByKeywords (falha_busca_respostas fl) (responses d)
                       (extractKeywords (JsString messageText) 10) of
                  Some (i, doc) \<Rightarrow> (d, doc_resposta doc, [])
                | None \<Rightarrow> consultar_openai fl openai agora d False messageText
                           (extractSenderInfo message)) of
            (d', texto, evs) \<Rightarrow>
              \<lparr>db_final = d', finalResponse = Some texto,
               enviado = Some (formattedResponse bot_name texto), eventos = BuscouCache # evs\<rparr>)"
  using assms
  by (simp add: processMessage_def Let_def split: option.splits prod.splits)

text \<open>
  Outside a learning command the store is never written. For every message whose text
  does not start with \<^verbatim>\<open>/aprender\<close> and a space, whatever the classifier answers and
  whichever store operations raise, \<^verbatim>\<open>processMessage\<close> leaves the store as it was
  (responses, facts and entities) and calls neither \<^verbatim>\<open>saveResponse\<close> nor \<^verbatim>\<open>saveFact\<close>.
  When moreover the cache has no hit, the classifier returns a classification that has
  its \<^verbatim>\<open>conhecimento\<close> object and the query path yields no specific answer, the final
  response is the answer text of the classification, sent after the display-name prefix.
\<close>

theorem no_writes_outside_learning:
  assumes t: "extractMessageText message = Some messageText"
      and n: "\<not> startsWith messageText ''/aprender ''"
  shows "db_final (processMessage bot_name fl openai agora message d) = d
       \<and> (\<forall>ev\<in>set (eventos (processMessage bot_name fl openai agora message d)). \<not> escrita ev)
       \<and> (messageText \<noteq> []
            \<and> findResponseByKeywords (falha_busca_respostas fl) (responses d)
                (extractKeywords (JsString messageText) 10) = None
            \<and> getOpenAIResponse openai messageText (Some (extractSenderInfo message)) = Inr dados
            \<and> conhecimento dados = Some k
            \<and> analise_taxonomica dados = Some tax
            \<and> responder_consulta fl (facts d) (sender_id (extractSenderInfo message)) tax
                messageText = Inr None
            \<longrightarrow> (\<exists>texto. resposta dados = Some texto
                   \<and> finalResponse (processMessage bot_name fl openai agora message d)
                       = Some texto
                   \<and> enviado (processMessage bot_name fl openai agora message d)
                       = Some (formattedResponse bot_name texto)))"
proof (cases "messageText = []")
  case True
  with t show ?thesis by (simp add: processMessage_def)
next
  case False
  note pm = processMessage_cases [OF t False n, of bot_name fl openai agora d]
  let ?c = "findResponseByKeywords (falha_busca_respostas fl) (responses d)
              (extractKeywords (JsString messageText) 10)"
  have a: "db_final (processMessage bot_name fl openai agora message d) = d
       \<and> (\<forall>ev\<in>set (eventos (processMessage bot_name fl openai agora message d)). \<not> escrita ev)"
  proof (cases ?c)
    case None
    obtain d' texto evs where
      c: "consultar_openai fl openai agora d False messageText (extractSenderInfo message)
            = (d', texto, evs)"
      by (metis prod_cases3)
    from consultar_openai_pergunta [OF c] pm None c show ?thesis
      by (simp add: escrita_def)
  next
    case (Some x)
    then show ?thesis using pm by (cases x) (simp add: escrita_def)
  qed
  have b: "messageText \<noteq> [] \<and> ?c = None
            \<and> getOpenAIResponse openai messageText (Some (extractSenderInfo message)) = Inr dados
            \<and> conhecimento dados = Some k
            \<and> analise_taxonomica dados = Some tax
            \<and> responder_consulta fl (facts d) (sender_id (extractSenderInfo message)) tax
                messageText = Inr None
            \<longrightarrow> (\<exists>texto. resposta dados = Some texto
                   \<and> finalResponse (processMessage bot_name fl openai agora message d)
                       = Some texto
                   \<and> enviado (processMessage bot_name fl openai agora message d)
                       = Some (formattedResponse bot_name texto))"
  proof
    assume h: "messageText \<noteq> [] \<and> ?c = None
            \<and> getOpenAIResponse openai messageText (Some (extractSenderInfo message)) = Inr dados
            \<and> conhecimento dados = Some k
            \<and> analise_taxonomica dados = Some tax
            \<and> responder_consulta fl (facts d) (sender_id (extractSenderInfo message)) tax
                messageText = Inr None"
    then have g: "getOpenAIResponse openai messageText (Some (extractSenderInfo message)) = Inr dados"
      and k: "conhecimento dados = Some k" and x: "analise_taxonomica dados = Some tax"
      and q: "responder_consulta fl (facts d) (sender_id (extractSenderInfo message)) tax
                messageText = Inr None"
      and c: "?c = None"
      by simp_all
    from getOpenAIResponse_valido [OF g] obtain texto where
      texto: "resposta dados = Some texto" "texto \<noteq> []"
      by (cases "resposta dados") (auto simp: truthy_def)
    from consultar_openai_resposta [OF g x q k, of agora] pm c texto
    show "\<exists>texto. resposta dados = Some texto
                   \<and> finalResponse (processMessage bot_name fl openai agora message d)
                       = Some texto
                   \<and> enviado (processMessage bot_name fl openai agora message d)
                       = Some (formattedResponse bot_name texto)"
      by (simp add: ou_def)
  qed
  from a b show ?thesis by blast
qed

theorem no_writes_outside_learning_witness:
  "extractMessageText (ex_mensagem ''qual o meu apelido'') = Some ''qual o meu apelido''
   \<and> \<not> startsWith ''qual o meu apelido'' ''/aprender ''
   \<and> db_final (processMessage None ex_sem_falhas
        (\<lambda>p. Json (ex_json ''pergunta'' ''Sem registro''
                      (Some \<lparr>armazenar = False, entradas = Some []\<rparr>)))
        9 (ex_mensagem ''qual o meu apelido'') ex_db) = ex_db
   \<and> finalResponse (processMessage None ex_sem_falhas
        (\<lambda>p. Json (ex_json ''pergunta'' ''Sem registro''
                      (Some \<lparr>armazenar = False, entradas = Some []\<rparr>)))
        9 (ex_mensagem ''qual o meu apelido'') ex_db) = Some ''Sem registro''"
proof -
  let ?t = "''qual o meu apelido''"
  let ?k = "\<lparr>armazenar = False, entradas = Some []\<rparr>"
  let ?tax = "\<lparr>tipo_interacao = Some ''pergunta'', sujeito_principal = Some USUARIO,
               categoria_conhecimento = Some ''IDENTIDADE'',
               contexto_aplicacao = Some ''PESSOAL'', nivel_certeza = Some ''ALTA''\<rparr>"
  let ?openai = "\<lambda>p :: pedido. Json (ex_json ''pergunta'' ''Sem registro'' (Some ?k))"
  have a: "extractMessageText (ex_mensagem ?t) = Some ?t"
    by code_simp
  have b: "\<not> startsWith ?t ''/aprender ''"
    by code_simp
  have c: "findResponseByKeywords (falha_busca_respostas ex_sem_falhas) (responses ex_db)
             (extractKeywords (JsString ?t) 10) = None"
    by code_simp
  have d: "getOpenAIResponse ?openai ?t (Some (extractSenderInfo (ex_mensagem ?t)))
         = Inr (ex_json ''pergunta'' ''Sem registro'' (Some ?k))"
    by code_simp
  have e: "responder_consulta ex_sem_falhas (facts ex_db)
             (sender_id (extractSenderInfo (ex_mensagem ?t))) ?tax ?t = Inr None"
    by code_simp
  have f: "conhecimento (ex_json ''pergunta'' ''Sem registro'' (Some ?k)) = Some ?k"
    "analise_taxonomica (ex_json ''pergunta'' ''Sem registro'' (Some ?k)) = Some ?tax"
    "resposta (ex_json ''pergunta'' ''Sem registro'' (Some ?k)) = Some ''Sem registro''"
    by (simp_all add: ex_json_def)
  from no_writes_outside_learning [OF a b, of None ex_sem_falhas ?openai 9 ex_db
      "ex_json ''pergunta'' ''Sem registro'' (Some ?k)" ?k ?tax] a b c d e f
  show ?thesis by simp
qed

text \<open>
  \<^bold>\<open>C3\<close> (no writes outside a learning command, and the reply is the answer text of the
  classifier) does not hold of the code in its second part. The adapter accepts a
  classification that has the four required fields and no \<^verbatim>\<open>conhecimento\<close> object. For a
  message that is not a learning command and gets no specific answer, \<^verbatim>\<open>processMessage\<close>
  passes the absent object to \<^verbatim>\<open>traduzirParaModeloDados\<close>, whose first test reads
  \<^verbatim>\<open>conhecimento.armazenar\<close> and raises; the \<^verbatim>\<open>catch\<close> around the classifier path then
  replaces the answer text of the classification by a fixed apology. For the message
  \<^verbatim>\<open>qual o meu apelido\<close>, with no cache hit and no specific answer, the classification
  with the answer text \<^verbatim>\<open>Sem registro\<close> and no \<^verbatim>\<open>conhecimento\<close> object is answered by the
  apology; with a \<^verbatim>\<open>conhecimento\<close> object that stores nothing, the same classification is
  answered by its text. The store is written in neither case.
\<close>

theorem reply_is_apology_without_knowledge:
  "extractMessageText (ex_mensagem ''qual o meu apelido'') = Some ''qual o meu apelido''
   \<and> \<not> startsWith ''qual o meu apelido'' ''/aprender ''
   \<and> findResponseByKeywords (falha_busca_respostas ex_sem_falhas) (responses ex_db)
        (extractKeywords (JsString ''qual o meu apelido'') 10) = None
   \<and> getOpenAIResponse (\<lambda>p. Json (ex_json ''pergunta'' ''Sem registro'' None))
        ''qual o meu apelido'' (Some (extractSenderInfo (ex_mensagem ''qual o meu apelido'')))
      = Inr (ex_json ''pergunta'' ''Sem registro'' None)
   \<and> resposta (ex_json ''pergunta'' ''Sem registro'' None) = Some ''Sem registro''
   \<and> map_option (\<lambda>tax. responder_consulta ex_sem_falhas (facts ex_db)
                           (sender_id (extractSenderInfo (ex_mensagem ''qual o meu apelido'')))
                           tax ''qual o meu apelido'')
        (analise_taxonomica (ex_json ''pergunta'' ''Sem registro'' None))
      = Some (Inr None)
   \<and> processMessage None ex_sem_falhas
        (\<lambda>p. Json (ex_json ''pergunta'' ''Sem registro'' None))
        9 (ex_mensagem ''qual o meu apelido'') ex_db
      = \<lparr>db_final = ex_db,
         finalResponse = Some (''Estou com problemas para obter uma resposta no momento. ''
                               @ ''Por favor, tente novamente mais tarde.''),
         enviado = Some (''*Marvin*'' @ [CHR 10, CHR 10]
                         @ ''Estou com problemas para obter uma resposta no momento. ''
                         @ ''Por favor, tente novamente mais tarde.''),
         eventos = [BuscouCache, ChamouOpenAI ''qual o meu apelido'', AnalisouTaxonomia]\<rparr>
   \<and> finalResponse (processMessage None ex_sem_falhas
        (\<lambda>p. Json (ex_json ''pergunta'' ''Sem registro''
                      (Some \<lparr>armazenar = False, entradas = Some []\<rparr>)))
        9 (ex_mensagem ''qual o meu apelido'') ex_db) = Some ''Sem registro''"
  by code_simp

text \<open>So the adapter returns a classification whose answer text is not the reply that is
  sent.\<close>

theorem reply_is_apology_without_knowledge_witness:
  "\<exists>dados. getOpenAIResponse (\<lambda>p. Json (ex_json ''pergunta'' ''Sem registro'' None))
        ''qual o meu apelido'' (Some (extractSenderInfo (ex_mensagem ''qual o meu apelido'')))
      = Inr dados
    \<and> resposta dados = Some ''Sem registro''
    \<and> finalResponse (processMessage None ex_sem_falhas
          (\<lambda>p. Json (ex_json ''pergunta'' ''Sem registro'' None))
          9 (ex_mensagem ''qual o meu apelido'') ex_db) \<noteq> resposta dados"
  using reply_is_apology_without_knowledge by simp

text \<open>
  \<^bold>\<open>C6\<close> (a cache hit short-circuits). For every message that is not a learning command,
  when the lookup of the extracted keywords in the response cache succeeds, the result of
  \<^verbatim>\<open>processMessage\<close> is fixed by the cached document alone: the final response is the
  cached answer text, the store is unchanged, and the only call made is the cache lookup;
  the classifier is not called and no taxonomy is analysed.
\<close>

theorem cache_hit_short_circuit:
  assumes t: "extractMessageText message = Some messageText" "messageText \<noteq> []"
      and n: "\<not> startsWith messageText ''/aprender ''"
      and c: "findResponseByKeywords (falha_busca_respostas fl) (responses d)
                (extractKeywords (JsString messageText) 10) = Some (i, doc)"
  shows "processMessage bot_name fl openai agora message d
           = \<lparr>db_final = d, finalResponse = Some (doc_resposta doc),
              enviado = Some (formattedResponse bot_name (doc_resposta doc)),
              eventos = [BuscouCache]\<rparr>
       \<and> (\<forall>ev\<in>set (eventos (processMessage bot_name fl openai agora message d)).
             ev \<noteq> AnalisouTaxonomia \<and> (\<forall>texto. ev \<noteq> ChamouOpenAI texto))"
  using processMessage_cases [OF t n, of bot_name fl openai agora d] c by simp

theorem cache_hit_short_circuit_witness:
  "extractMessageText (ex_mensagem ''nome usuario endereco'') = Some ''nome usuario endereco''
   \<and> \<not> startsWith ''nome usuario endereco'' ''/aprender ''
   \<and> findResponseByKeywords (falha_busca_respostas ex_sem_falhas) (responses ex_db)
        (extractKeywords (JsString ''nome usuario endereco'') 10) = Some (0, ex_resposta)
   \<and> processMessage None ex_sem_falhas (\<lambda>p. ErroApi ''fora do ar'') 9
        (ex_mensagem ''nome usuario endereco'') ex_db
     = \<lparr>db_final = ex_db, finalResponse = Some ''Resposta em cache'',
        enviado = Some (''*Marvin*'' @ [CHR 10, CHR 10] @ ''Resposta em cache''),
        eventos = [BuscouCache]\<rparr>"
proof -
  let ?t = "''nome usuario endereco''"
  have a: "extractMessageText (ex_mensagem ?t) = Some ?t"
    by code_simp
  have a': "?t \<noteq> []"
    by simp
  have b: "\<not> startsWith ?t ''/aprender ''"
    by code_simp
  have c: "findResponseByKeywords (falha_busca_respostas ex_sem_falhas) (responses ex_db)
             (extractKeywords (JsString ?t) 10) = Some (0, ex_resposta)"
    by code_simp
  have f: "formattedResponse None (doc_resposta ex_resposta)
         = ''*Marvin*'' @ [CHR 10, CHR 10] @ ''Resposta em cache''"
    "doc_resposta ex_resposta = ''Resposta em cache''"
    by (simp_all add: formattedResponse_def ou_def ex_resposta_def)
  from cache_hit_short_circuit [OF a a' b c, of None "\<lambda>p. ErroApi ''fora do ar''" 9] a b c f
  show ?thesis by simp
qed

text \<open>
  \<^bold>\<open>C4\<close> (the count of the confirmation reply). The loop tries every translated fact,
  whatever the earlier saves returned, and the reply is always sent; but the reply counts
  the translated facts, not the saved ones.
\<close>

lemma salvar_fatos_tenta_todos:
  "map (\<lambda>ev. case ev of SalvouFato f r \<Rightarrow> Some f | _ \<Rightarrow> None)
     (snd (salvar_fatos falha agora col fs)) = map Some fs"
proof (induction fs arbitrary: col)
  case Nil
  then show ?case by simp
next
  case (Cons f fs)
  obtain col' r where s: "saveFact (falha f) agora col f = (col', r)"
    by (cases "saveFact (falha f) agora col f")
  obtain col'' evs where t: "salvar_fatos falha agora col' fs = (col'', evs)"
    by (cases "salvar_fatos falha agora col' fs")
  from Cons.IH [of col'] s t show ?case by simp
qed

lemma aprender_conta_traduzidos:
  assumes "conhecimento dados = Some k"
  shows "\<exists>d' evs. aprender_ou_responder fl agora d True u dados
           = Some (d', msg_aprendizado (length (traduzirParaModeloDados agora k u)), evs)"
  using assms
  by (simp add: aprender_ou_responder_def Let_def split: prod.splits)

text \<open>
  \<^bold>\<open>C4\<close>, evaluated where a save fails. A learning command yields two facts; the store
  raises while the first is saved. The second fact is saved and the reply is sent, but it
  says that 2 facts were stored while the store holds one: the failed save is not
  excluded from the count that the reply reports.
\<close>

theorem learning_count_includes_failed_save:
  "finalResponse (processMessage None ex_falha_nome
      (\<lambda>p. Json (ex_json ''informativa'' ''Armazenei''
         (Some \<lparr>armazenar = True,
                entradas = Some [ex_identidade ''ALTA'',
                                 ex_definicao ''API'' ''interface de programas'']\<rparr>)))
      7 (ex_mensagem (''/aprender meu nome '' @ [e_agudo]
                      @ '' Ana e API significa interface de programas'')) ex_db)
     = Some (''Aprendizado conclu'' @ [i_agudo]
             @ ''do com sucesso. 2 fatos foram armazenados.'')
   \<and> facts (db_final (processMessage None ex_falha_nome
      (\<lambda>p. Json (ex_json ''informativa'' ''Armazenei''
         (Some \<lparr>armazenar = True,
                entradas = Some [ex_identidade ''ALTA'',
                                 ex_definicao ''API'' ''interface de programas'']\<rparr>)))
      7 (ex_mensagem (''/aprender meu nome '' @ [e_agudo]
                      @ '' Ana e API significa interface de programas'')) ex_db))
     = [ex_doc_api 7]
   \<and> eventos (processMessage None ex_falha_nome
      (\<lambda>p. Json (ex_json ''informativa'' ''Armazenei''
         (Some \<lparr>armazenar = True,
                entradas = Some [ex_identidade ''ALTA'',
                                 ex_definicao ''API'' ''interface de programas'']\<rparr>)))
      7 (ex_mensagem (''/aprender meu nome '' @ [e_agudo]
                      @ '' Ana e API significa interface de programas'')) ex_db)
     = [BuscouCache,
        ChamouOpenAI (''meu nome '' @ [e_agudo]
                      @ '' Ana e API significa interface de programas''),
        Traduziu, SalvouResposta (Sucesso False),
        SalvouFato (ex_fato_nome 7) Falhou,
        SalvouFato (ex_fato_api 7) (Sucesso False)]"
  by code_simp

end
